theory Spec2Isabelle
  imports Main "HOL-Library.Word"
begin

unbundle bit_operations_syntax

section \<open>Data model of package lmdbsync\<close>

subsection \<open>Errors\<close>

text \<open>
  Go's \<open>error\<close> interface values that the package distinguishes. \<open>MapResized\<close> and
  \<open>MapFull\<close> are the engine's distinguished errors, \<open>RetryTxn\<close> is the retry sentinel
  of the handler chain, \<open>ErrnoSys n\<close> is an engine error carrying the system errno \<open>n\<close>,
  \<open>OtherError\<close> is any other error. A nil error is \<open>None\<close>.
\<close>

datatype error = MapResized | MapFull | RetryTxn | ErrnoSys nat | OtherError string

type_synonym err = "error option"

text \<open>\<open>syscall.EINVAL\<close>, the errno the engine reports for a handle that is not yet open.\<close>

definition EINVAL :: nat where
  "EINVAL = 22"

text \<open>
  Modelled from the spec: \<open>lmdb.IsErrnoSys\<close> belongs to the engine package; the spec
  only says that the flags query may fail with the not-yet-open errno. The test is true
  exactly for an engine error that carries the given system errno.
\<close>

definition IsErrnoSys :: "err \<Rightarrow> nat \<Rightarrow> bool" where
  "IsErrnoSys e n = (e = Some (ErrnoSys n))"

subsection \<open>Pointers and the context bag\<close>

text \<open>
  A \<open>*Env\<close> is an index into the list of allocated wrappers of the state; a pointer that
  may be nil is an \<open>envptr option\<close>.
\<close>

type_synonym envptr = nat

text \<open>
  Bag keys and values are Go interface values. \<open>envBagKey n\<close> is a value of the
  package's private key type, \<open>OtherKey\<close> any key of another type; \<open>EnvValue p\<close> is a
  value of dynamic type \<open>*Env\<close> (the pointer itself may be nil), \<open>OtherValue\<close> a value
  of any other type. A nil interface value is \<open>None\<close>.
\<close>

datatype bagkey = envBagKey int | OtherKey nat

datatype bagvalue = EnvValue "envptr option" | OtherValue nat

text \<open>
  Modelled from the spec: the type \<open>Bag\<close> with \<open>Background\<close>, \<open>BagWith\<close> and the method
  \<open>Value\<close> is declared in a file of the package that is not part of the sources at hand.
  The spec describes a persistent association in which \<open>with(key, value)\<close> returns a new bag
  and a lookup of a key absent from a derived bag falls through to the parent; the
  background bag is the root and binds nothing.
\<close>

datatype Bag = Background | BagWith Bag bagkey "bagvalue option"

fun Value :: "Bag \<Rightarrow> bagkey \<Rightarrow> bagvalue option" where
  "Value Background k = None"
| "Value (BagWith b k' v) k = (if k = k' then v else Value b k)"

text \<open>
  \<open>BagEnv\<close>: the comma-ok type assertion of \<open>b.Value(envBagKey(0))\<close> to \<open>*Env\<close>
  yields the pointer when the dynamic type is \<open>*Env\<close> and the nil pointer otherwise.
\<close>

definition BagEnv :: "Bag \<Rightarrow> envptr option" where
  "BagEnv b = (case Value b (envBagKey 0) of
                 Some (EnvValue p) \<Rightarrow> p
               | _ \<Rightarrow> None)"

definition bagWithEnv :: "Bag \<Rightarrow> envptr option \<Rightarrow> Bag" where
  "bagWithEnv b env = BagWith b (envBagKey 0) (Some (EnvValue env))"

subsection \<open>The engine\<close>

text \<open>
  Go's \<open>uint\<close> (flags), \<open>os.FileMode\<close>, \<open>int64\<close> (map size) and \<open>time.Duration\<close>
  (signed nanoseconds) on a 64-bit platform.
\<close>

type_synonym uint = "64 word"
type_synonym FileMode = "32 word"
type_synonym int64 = "64 word"
type_synonym Duration = "64 word"

text \<open>
  The storage engine is an external collaborator. An engine handle (\<open>*lmdb.Env\<close>) is the
  record of its methods; each method acts on the world \<open>'w\<close> outside the wrapper (the
  engine's environment and whatever the caller's transaction bodies touch) and returns
  its Go results. \<open>'op\<close> is the type of transaction bodies (\<open>lmdb.TxnOp\<close>), which only
  the engine invokes.
\<close>

record ('w, 'op) lmdb_Env =
  lmdb_Open :: "string \<Rightarrow> uint \<Rightarrow> FileMode \<Rightarrow> 'w \<Rightarrow> err \<times> 'w"
  lmdb_SetFlags :: "uint \<Rightarrow> 'w \<Rightarrow> err \<times> 'w"
  lmdb_UnsetFlags :: "uint \<Rightarrow> 'w \<Rightarrow> err \<times> 'w"
  lmdb_Flags :: "'w \<Rightarrow> (uint \<times> err) \<times> 'w"
  lmdb_SetMapSize :: "int64 \<Rightarrow> 'w \<Rightarrow> err \<times> 'w"
  lmdb_RunTxn :: "uint \<Rightarrow> 'op \<Rightarrow> 'w \<Rightarrow> err \<times> 'w"
  lmdb_View :: "'op \<Rightarrow> 'w \<Rightarrow> err \<times> 'w"
  lmdb_Update :: "'op \<Rightarrow> 'w \<Rightarrow> err \<times> 'w"
  lmdb_UpdateLocked :: "'op \<Rightarrow> 'w \<Rightarrow> err \<times> 'w"

text \<open>
  What the wrapper uses of package \<open>lmdb\<close> itself: the constructor \<open>lmdb.NewEnv()\<close>
  (it returns a handle, possibly nil, and an error) and the flag constants \<open>lmdb.NoLock\<close>
  and \<open>lmdb.Readonly\<close>. They are parameters of the model.
\<close>

record ('w, 'op) lmdb =
  lmdb_NewEnv :: "'w \<Rightarrow> (('w, 'op) lmdb_Env option \<times> err) \<times> 'w"
  NoLock :: uint
  Readonly :: uint

subsection \<open>Handlers\<close>

text \<open>
  The interface \<open>Handler\<close> has the single method \<open>HandleTxnErr(b Bag, err error) (Bag,
  error)\<close>. Its declaration is not among the sources; the model takes a handler to be its
  method, which may act on the world. What a handler does to the wrapper itself (the
  baseline handler of the spec adopts a new map size under the wrapper's lock and releases
  the lock before it returns) is not part of the model: a handler leaves the wrappers as
  they are.
\<close>

type_synonym 'w Handler = "Bag \<Rightarrow> err \<Rightarrow> 'w \<Rightarrow> (Bag \<times> err) \<times> 'w"

type_synonym 'w HandlerChain = "'w Handler list"

text \<open>
  Modelled from the spec: the methods of \<open>HandlerChain\<close> are not among the sources. The
  spec describes an ordered list of handlers invoked sequentially, each on the bag and
  error returned by the one before, and \<open>append(h)\<close> producing a new chain that never
  mutates the original.
\<close>

fun HandlerChain_HandleTxnErr :: "'w HandlerChain \<Rightarrow> 'w Handler" where
  "HandlerChain_HandleTxnErr [] b e w = ((b, e), w)"
| "HandlerChain_HandleTxnErr (h1 # c) b e w =
     (case h1 b e w of ((b', e'), w') \<Rightarrow> HandlerChain_HandleTxnErr c b' e' w')"

definition Append :: "'w HandlerChain \<Rightarrow> 'w Handler \<Rightarrow> 'w HandlerChain" where
  "Append c h1 = c @ [h1]"

subsection \<open>The wrapper and the program state\<close>

text \<open>
  \<open>sync.RWMutex\<close>: whether a writer holds the lock and how many readers hold it. The
  zero value is the unlocked mutex.
\<close>

record RWMutex =
  writer :: bool
  readers :: nat

text \<open>
  The struct \<open>Env\<close>. \<open>Env_lmdb\<close> is the embedded \<open>*lmdb.Env\<close>.
\<close>

record ('w, 'op) Env =
  Env_lmdb :: "('w, 'op) lmdb_Env"
  Handlers :: "'w HandlerChain"
  bag :: Bag
  noLock :: bool
  txnlock :: RWMutex

text \<open>
  The trace is ghost state: it records, in program order, every operation on a wrapper's
  mutex, the sleep of the delayed resize, and every call of the engine's resize
  primitive, of a transaction closure and of a handler. Nothing in the model reads it.
\<close>

datatype event =
    EvLock envptr
  | EvUnlock envptr
  | EvRLock envptr
  | EvRUnlock envptr
  | EvSleep Duration
  | EvSetMapSize envptr int64
  | EvTxn envptr
  | EvHandle Bag err

text \<open>
  The state a call runs in: the world, the allocated wrappers (a \<open>*Env\<close> is an index
  into \<open>heap\<close>) and the trace.
\<close>

record ('w, 'op) state =
  world :: 'w
  heap :: "('w, 'op) Env list"
  trace :: "event list"

text \<open>
  A call is modelled for one goroutine running alone. It returns a value; or it blocks on
  a mutex that nobody will release (\<open>Blocked\<close>, with the state in which it waits); or it
  panics (a nil dereference, or the runtime's fatal error for unlocking an unlocked
  mutex).
\<close>

datatype ('a, 's) outcome = Returned 'a 's | Blocked 's | Panicked

definition andThen ::
  "('a, 's) outcome \<Rightarrow> ('a \<Rightarrow> 's \<Rightarrow> ('b, 's) outcome) \<Rightarrow> ('b, 's) outcome" where
  "andThen m f = (case m of Returned a s \<Rightarrow> f a s | Blocked s \<Rightarrow> Blocked s | Panicked \<Rightarrow> Panicked)"

definition deref :: "('w, 'op) state \<Rightarrow> envptr \<Rightarrow> ('w, 'op) Env option" where
  "deref \<sigma> r = (if r < length (heap \<sigma>) then Some (heap \<sigma> ! r) else None)"

definition store :: "envptr \<Rightarrow> ('w, 'op) Env \<Rightarrow> ('w, 'op) state \<Rightarrow> ('w, 'op) state" where
  "store r e \<sigma> = \<sigma>\<lparr>heap := (heap \<sigma>)[r := e]\<rparr>"

definition emit :: "event \<Rightarrow> ('w, 'op) state \<Rightarrow> ('w, 'op) state" where
  "emit ev \<sigma> = \<sigma>\<lparr>trace := trace \<sigma> @ [ev]\<rparr>"

subsection \<open>The readers-writer mutex\<close>

text \<open>
  \<open>sync.RWMutex\<close> is not reentrant. \<open>Lock\<close> waits until no writer and no reader holds
  the mutex, \<open>RLock\<close> until no writer holds it; \<open>None\<close> says that the caller has to wait.
  \<open>Unlock\<close> of a mutex that is not locked for writing and \<open>RUnlock\<close> of one that is not
  locked for reading are fatal errors of the runtime (\<open>None\<close>).
\<close>

definition RWMutex_Lock :: "RWMutex \<Rightarrow> RWMutex option" where
  "RWMutex_Lock m = (if writer m \<or> readers m \<noteq> 0 then None else Some (m\<lparr>writer := True\<rparr>))"

definition RWMutex_Unlock :: "RWMutex \<Rightarrow> RWMutex option" where
  "RWMutex_Unlock m = (if writer m then Some (m\<lparr>writer := False\<rparr>) else None)"

definition RWMutex_RLock :: "RWMutex \<Rightarrow> RWMutex option" where
  "RWMutex_RLock m = (if writer m then None else Some (m\<lparr>readers := readers m + 1\<rparr>))"

definition RWMutex_RUnlock :: "RWMutex \<Rightarrow> RWMutex option" where
  "RWMutex_RUnlock m = (if readers m = 0 then None else Some (m\<lparr>readers := readers m - 1\<rparr>))"

text \<open>The four operations on \<open>r.txnlock\<close>, as steps of the calling goroutine.\<close>

definition txnlock_Lock :: "envptr \<Rightarrow> ('w, 'op) state \<Rightarrow> (unit, ('w, 'op) state) outcome" where
  "txnlock_Lock r \<sigma> =
     (case deref \<sigma> r of
        None \<Rightarrow> Panicked
      | Some e \<Rightarrow>
          (case RWMutex_Lock (txnlock e) of
             None \<Rightarrow> Blocked \<sigma>
           | Some m \<Rightarrow> Returned () (emit (EvLock r) (store r (e\<lparr>txnlock := m\<rparr>) \<sigma>))))"

definition txnlock_Unlock :: "envptr \<Rightarrow> ('w, 'op) state \<Rightarrow> (unit, ('w, 'op) state) outcome" where
  "txnlock_Unlock r \<sigma> =
     (case deref \<sigma> r of
        None \<Rightarrow> Panicked
      | Some e \<Rightarrow>
          (case RWMutex_Unlock (txnlock e) of
             None \<Rightarrow> Panicked
           | Some m \<Rightarrow> Returned () (emit (EvUnlock r) (store r (e\<lparr>txnlock := m\<rparr>) \<sigma>))))"

definition txnlock_RLock :: "envptr \<Rightarrow> ('w, 'op) state \<Rightarrow> (unit, ('w, 'op) state) outcome" where
  "txnlock_RLock r \<sigma> =
     (case deref \<sigma> r of
        None \<Rightarrow> Panicked
      | Some e \<Rightarrow>
          (case RWMutex_RLock (txnlock e) of
             None \<Rightarrow> Blocked \<sigma>
           | Some m \<Rightarrow> Returned () (emit (EvRLock r) (store r (e\<lparr>txnlock := m\<rparr>) \<sigma>))))"

definition txnlock_RUnlock :: "envptr \<Rightarrow> ('w, 'op) state \<Rightarrow> (unit, ('w, 'op) state) outcome" where
  "txnlock_RUnlock r \<sigma> =
     (case deref \<sigma> r of
        None \<Rightarrow> Panicked
      | Some e \<Rightarrow>
          (case RWMutex_RUnlock (txnlock e) of
             None \<Rightarrow> Panicked
           | Some m \<Rightarrow> Returned () (emit (EvRUnlock r) (store r (e\<lparr>txnlock := m\<rparr>) \<sigma>))))"

text \<open>
  A call into the world: of an engine method or closure (\<open>call\<close>), and of a handler's
  method on a bag and an error (\<open>HandleTxnErr\<close>).
\<close>

definition call :: "('w \<Rightarrow> 'a \<times> 'w) \<Rightarrow> ('w, 'op) state \<Rightarrow> 'a \<times> ('w, 'op) state" where
  "call f \<sigma> = (case f (world \<sigma>) of (a, w') \<Rightarrow> (a, \<sigma>\<lparr>world := w'\<rparr>))"

definition HandleTxnErr ::
  "'w Handler \<Rightarrow> Bag \<Rightarrow> err \<Rightarrow> ('w, 'op) state \<Rightarrow> (Bag \<times> err) \<times> ('w, 'op) state" where
  "HandleTxnErr h b e \<sigma> = call (h b e) (emit (EvHandle b e) \<sigma>)"

section \<open>The operations of the wrapper\<close>

subsection \<open>Construction and the lifecycle proxies\<close>

text \<open>
  \<open>NewEnv(env, h...)\<close> returns a \<open>*Env\<close> and an error. A nil \<open>env\<close> is replaced by a handle
  from \<open>lmdb.NewEnv()\<close>; the flags of the handle are queried, \<open>EINVAL\<close> from the query
  is dropped and any other error returned; the new wrapper is allocated with the lock
  mode read off the flags, the given handlers as its chain and the background bag.
\<close>

definition NewEnv ::
  "('w, 'op) lmdb \<Rightarrow> ('w, 'op) lmdb_Env option \<Rightarrow> 'w Handler list \<Rightarrow> ('w, 'op) state
     \<Rightarrow> (envptr option \<times> err, ('w, 'op) state) outcome" where
  "NewEnv L env hs \<sigma> =
     (case (case env of
              None \<Rightarrow> call (lmdb_NewEnv L) \<sigma>
            | Some _ \<Rightarrow> ((env, None), \<sigma>)) of
        ((env1, err0), \<sigma>1) \<Rightarrow>
          if env = None \<and> err0 \<noteq> None then Returned (None, err0) \<sigma>1
          else
            (case env1 of
               None \<Rightarrow> Panicked
             | Some eng \<Rightarrow>
                 (case call (lmdb_Flags eng) \<sigma>1 of
                    ((flags, err), \<sigma>2) \<Rightarrow>
                      if \<not> IsErrnoSys err EINVAL \<and> err \<noteq> None then Returned (None, err) \<sigma>2
                      else
                        Returned (Some (length (heap \<sigma>2)), None)
                          (\<sigma>2\<lparr>heap := heap \<sigma>2 @
                             [\<lparr>Env_lmdb = eng, Handlers = hs, bag = Background,
                               noLock = (flags AND NoLock L \<noteq> 0),
                               txnlock = \<lparr>writer = False, readers = 0\<rparr>\<rparr>]\<rparr>))))"

definition Open ::
  "('w, 'op) lmdb \<Rightarrow> envptr \<Rightarrow> string \<Rightarrow> uint \<Rightarrow> FileMode \<Rightarrow> ('w, 'op) state
     \<Rightarrow> (err, ('w, 'op) state) outcome" where
  "Open L r path flags mode \<sigma> =
     (case deref \<sigma> r of
        None \<Rightarrow> Panicked
      | Some e \<Rightarrow>
          (case call (lmdb_Open (Env_lmdb e) path flags mode) \<sigma> of
             (err, \<sigma>1) \<Rightarrow>
               if err \<noteq> None then Returned err \<sigma>1
               else if flags AND NoLock L \<noteq> 0
                 then Returned None (store r (e\<lparr>noLock := True\<rparr>) \<sigma>1)
                 else Returned None \<sigma>1))"

definition SetFlags ::
  "('w, 'op) lmdb \<Rightarrow> envptr \<Rightarrow> uint \<Rightarrow> ('w, 'op) state \<Rightarrow> (err, ('w, 'op) state) outcome" where
  "SetFlags L r flags \<sigma> =
     (case deref \<sigma> r of
        None \<Rightarrow> Panicked
      | Some e \<Rightarrow>
          (case call (lmdb_SetFlags (Env_lmdb e) flags) \<sigma> of
             (err, \<sigma>1) \<Rightarrow>
               if err \<noteq> None then Returned err \<sigma>1
               else if flags AND NoLock L \<noteq> 0
                 then Returned None (store r (e\<lparr>noLock := True\<rparr>) \<sigma>1)
                 else Returned None \<sigma>1))"

definition UnsetFlags ::
  "('w, 'op) lmdb \<Rightarrow> envptr \<Rightarrow> uint \<Rightarrow> ('w, 'op) state \<Rightarrow> (err, ('w, 'op) state) outcome" where
  "UnsetFlags L r flags \<sigma> =
     (case deref \<sigma> r of
        None \<Rightarrow> Panicked
      | Some e \<Rightarrow>
          (case call (lmdb_UnsetFlags (Env_lmdb e) flags) \<sigma> of
             (err, \<sigma>1) \<Rightarrow>
               if err \<noteq> None then Returned err \<sigma>1
               else if flags AND NoLock L \<noteq> 0
                 then Returned None (store r (e\<lparr>noLock := False\<rparr>) \<sigma>1)
                 else Returned None \<sigma>1))"

subsection \<open>Resizing\<close>

text \<open>
  \<open>setMapSize(size, delay)\<close>: lock the mutex for writing, sleep when the delay is
  positive, call the engine, unlock, return the engine's error.
\<close>

definition setMapSize ::
  "envptr \<Rightarrow> int64 \<Rightarrow> Duration \<Rightarrow> ('w, 'op) state \<Rightarrow> (err, ('w, 'op) state) outcome" where
  "setMapSize r sz delay \<sigma> =
     andThen (txnlock_Lock r \<sigma>) (\<lambda>_ \<sigma>1.
       let \<sigma>2 = (if 0 <s delay then emit (EvSleep delay) \<sigma>1 else \<sigma>1) in
       case deref \<sigma>2 r of
         None \<Rightarrow> Panicked
       | Some e \<Rightarrow>
           (case call (lmdb_SetMapSize (Env_lmdb e) sz) (emit (EvSetMapSize r sz) \<sigma>2) of
              (err, \<sigma>3) \<Rightarrow>
                andThen (txnlock_Unlock r \<sigma>3) (\<lambda>_ \<sigma>4. Returned err \<sigma>4)))"

text \<open>
  \<open>SetMapSize(size)\<close>: lock the mutex for writing, call \<open>setMapSize(size, 0)\<close>, unlock,
  return its error.
\<close>

definition SetMapSize ::
  "envptr \<Rightarrow> int64 \<Rightarrow> ('w, 'op) state \<Rightarrow> (err, ('w, 'op) state) outcome" where
  "SetMapSize r sz \<sigma> =
     andThen (txnlock_Lock r \<sigma>) (\<lambda>_ \<sigma>1.
       andThen (setMapSize r sz 0 \<sigma>1) (\<lambda>err \<sigma>2.
         andThen (txnlock_Unlock r \<sigma>2) (\<lambda>_ \<sigma>3. Returned err \<sigma>3)))"

subsection \<open>Transactions\<close>

text \<open>
  \<open>run(readonly, fn)\<close>: one attempt. With \<open>noLock\<close> set and a transaction that is not
  read-only the closure runs under the write lock, otherwise under the read lock.
\<close>

definition run ::
  "envptr \<Rightarrow> bool \<Rightarrow> ('w \<Rightarrow> err \<times> 'w) \<Rightarrow> ('w, 'op) state \<Rightarrow> (err, ('w, 'op) state) outcome" where
  "run r readonly fn \<sigma> =
     (case deref \<sigma> r of
        None \<Rightarrow> Panicked
      | Some e \<Rightarrow>
          if noLock e \<and> \<not> readonly then
            andThen (txnlock_Lock r \<sigma>) (\<lambda>_ \<sigma>1.
              case call fn (emit (EvTxn r) \<sigma>1) of
                (err, \<sigma>2) \<Rightarrow> andThen (txnlock_Unlock r \<sigma>2) (\<lambda>_ \<sigma>3. Returned err \<sigma>3))
          else
            andThen (txnlock_RLock r \<sigma>) (\<lambda>_ \<sigma>1.
              case call fn (emit (EvTxn r) \<sigma>1) of
                (err, \<sigma>2) \<Rightarrow> andThen (txnlock_RUnlock r \<sigma>2) (\<lambda>_ \<sigma>3. Returned err \<sigma>3)))"

text \<open>
  The loop of \<open>runHandler\<close>: run an attempt, hand bag and error to the handler, return
  the handler's error unless it is \<open>RetryTxn\<close>, and otherwise go round again with the bag
  the handler returned. The loop need not end: the result \<open>None\<close> says that the call
  retries forever.
\<close>

partial_function (option) runHandler_loop ::
  "envptr \<Rightarrow> bool \<Rightarrow> ('w \<Rightarrow> err \<times> 'w) \<Rightarrow> 'w Handler \<Rightarrow> Bag \<Rightarrow> ('w, 'op) state
     \<Rightarrow> (err, ('w, 'op) state) outcome option" where
  "runHandler_loop r readonly fn h b \<sigma> =
     (case run r readonly fn \<sigma> of
        Returned err \<sigma>1 \<Rightarrow>
          (case HandleTxnErr h b err \<sigma>1 of
             ((b', err'), \<sigma>2) \<Rightarrow>
               if err' \<noteq> Some RetryTxn then Some (Returned err' \<sigma>2)
               else runHandler_loop r readonly fn h b' \<sigma>2)
      | Blocked s \<Rightarrow> Some (Blocked s)
      | Panicked \<Rightarrow> Some Panicked)"

definition runHandler ::
  "envptr \<Rightarrow> bool \<Rightarrow> ('w \<Rightarrow> err \<times> 'w) \<Rightarrow> 'w Handler \<Rightarrow> ('w, 'op) state
     \<Rightarrow> (err, ('w, 'op) state) outcome option" where
  "runHandler r readonly fn h \<sigma> =
     (case deref \<sigma> r of
        None \<Rightarrow> Some Panicked
      | Some e \<Rightarrow> runHandler_loop r readonly fn h (bagWithEnv (bag e) (Some r)) \<sigma>)"

text \<open>
  The four transaction operations. Each passes \<open>runHandler\<close> its read-only-ness, the
  closure that calls the engine, and the wrapper's chain as the handler.
\<close>

definition RunTxn ::
  "('w, 'op) lmdb \<Rightarrow> envptr \<Rightarrow> uint \<Rightarrow> 'op \<Rightarrow> ('w, 'op) state
     \<Rightarrow> (err, ('w, 'op) state) outcome option" where
  "RunTxn L r flags op \<sigma> =
     (case deref \<sigma> r of
        None \<Rightarrow> Some Panicked
      | Some e \<Rightarrow>
          runHandler r (flags AND Readonly L \<noteq> 0) (lmdb_RunTxn (Env_lmdb e) flags op)
            (HandlerChain_HandleTxnErr (Handlers e)) \<sigma>)"

definition View ::
  "envptr \<Rightarrow> 'op \<Rightarrow> ('w, 'op) state \<Rightarrow> (err, ('w, 'op) state) outcome option" where
  "View r op \<sigma> =
     (case deref \<sigma> r of
        None \<Rightarrow> Some Panicked
      | Some e \<Rightarrow>
          runHandler r True (lmdb_View (Env_lmdb e) op)
            (HandlerChain_HandleTxnErr (Handlers e)) \<sigma>)"

definition Update ::
  "envptr \<Rightarrow> 'op \<Rightarrow> ('w, 'op) state \<Rightarrow> (err, ('w, 'op) state) outcome option" where
  "Update r op \<sigma> =
     (case deref \<sigma> r of
        None \<Rightarrow> Some Panicked
      | Some e \<Rightarrow>
          runHandler r False (lmdb_Update (Env_lmdb e) op)
            (HandlerChain_HandleTxnErr (Handlers e)) \<sigma>)"

definition UpdateLocked ::
  "envptr \<Rightarrow> 'op \<Rightarrow> ('w, 'op) state \<Rightarrow> (err, ('w, 'op) state) outcome option" where
  "UpdateLocked r op \<sigma> =
     (case deref \<sigma> r of
        None \<Rightarrow> Some Panicked
      | Some e \<Rightarrow>
          runHandler r False (lmdb_UpdateLocked (Env_lmdb e) op)
            (HandlerChain_HandleTxnErr (Handlers e)) \<sigma>)"

subsection \<open>Runners\<close>

text \<open>
  The struct \<open>handlerRunner\<close> with its fields \<open>env\<close> and \<open>h\<close>; the handler stored in
  \<open>h\<close> is a chain.
\<close>

record 'w handlerRunner =
  runner_env :: envptr
  runner_h :: "'w HandlerChain"

definition WithHandler ::
  "envptr \<Rightarrow> 'w Handler \<Rightarrow> ('w, 'op) state \<Rightarrow> ('w handlerRunner, ('w, 'op) state) outcome" where
  "WithHandler r h1 \<sigma> =
     (case deref \<sigma> r of
        None \<Rightarrow> Panicked
      | Some e \<Rightarrow> Returned \<lparr>runner_env = r, runner_h = Append (Handlers e) h1\<rparr> \<sigma>)"

text \<open>
  Modelled from the spec: the methods of \<open>handlerRunner\<close> are not among the sources.
  The spec says that a runner exposes the same four transaction operations, executing
  them against the same wrapper instance but substituting its own chain.
\<close>

definition handlerRunner_RunTxn ::
  "('w, 'op) lmdb \<Rightarrow> 'w handlerRunner \<Rightarrow> uint \<Rightarrow> 'op \<Rightarrow> ('w, 'op) state
     \<Rightarrow> (err, ('w, 'op) state) outcome option" where
  "handlerRunner_RunTxn L rn flags op \<sigma> =
     (case deref \<sigma> (runner_env rn) of
        None \<Rightarrow> Some Panicked
      | Some e \<Rightarrow>
          runHandler (runner_env rn) (flags AND Readonly L \<noteq> 0)
            (lmdb_RunTxn (Env_lmdb e) flags op) (HandlerChain_HandleTxnErr (runner_h rn)) \<sigma>)"

definition handlerRunner_View ::
  "'w handlerRunner \<Rightarrow> 'op \<Rightarrow> ('w, 'op) state \<Rightarrow> (err, ('w, 'op) state) outcome option" where
  "handlerRunner_View rn op \<sigma> =
     (case deref \<sigma> (runner_env rn) of
        None \<Rightarrow> Some Panicked
      | Some e \<Rightarrow>
          runHandler (runner_env rn) True
            (lmdb_View (Env_lmdb e) op) (HandlerChain_HandleTxnErr (runner_h rn)) \<sigma>)"

definition handlerRunner_Update ::
  "'w handlerRunner \<Rightarrow> 'op \<Rightarrow> ('w, 'op) state \<Rightarrow> (err, ('w, 'op) state) outcome option" where
  "handlerRunner_Update rn op \<sigma> =
     (case deref \<sigma> (runner_env rn) of
        None \<Rightarrow> Some Panicked
      | Some e \<Rightarrow>
          runHandler (runner_env rn) False
            (lmdb_Update (Env_lmdb e) op) (HandlerChain_HandleTxnErr (runner_h rn)) \<sigma>)"

definition handlerRunner_UpdateLocked ::
  "'w handlerRunner \<Rightarrow> 'op \<Rightarrow> ('w, 'op) state \<Rightarrow> (err, ('w, 'op) state) outcome option" where
  "handlerRunner_UpdateLocked rn op \<sigma> =
     (case deref \<sigma> (runner_env rn) of
        None \<Rightarrow> Some Panicked
      | Some e \<Rightarrow>
          runHandler (runner_env rn) False
            (lmdb_UpdateLocked (Env_lmdb e) op) (HandlerChain_HandleTxnErr (runner_h rn)) \<sigma>)"

section \<open>Vocabulary of the specification\<close>

text \<open>
  The admission rule in the words of the spec: with the lock-mode flag unset every
  attempt is admitted in shared mode; with the flag set a write attempt is admitted
  exclusively and a read attempt in shared mode.
\<close>

datatype lockmode = Shared | Exclusive

definition admission_mode :: "bool \<Rightarrow> bool \<Rightarrow> lockmode" where
  "admission_mode flag readonly =
     (if \<not> flag then Shared else if readonly then Shared else Exclusive)"

text \<open>
  A mutex can be taken in a mode without waiting: in shared mode when no writer holds
  it, exclusively when nobody holds it.
\<close>

definition acquirable :: "lockmode \<Rightarrow> RWMutex \<Rightarrow> bool" where
  "acquirable m mu =
     (case m of Shared \<Rightarrow> \<not> writer mu | Exclusive \<Rightarrow> \<not> writer mu \<and> readers mu = 0)"

text \<open>
  What the trace shows of an attempt that holds the lock of wrapper \<open>r\<close> in a mode for
  the duration of the engine call, and of a sequence of rounds, each an attempt followed
  by the call of the handler on a bag and an error.
\<close>

definition attempt_events :: "lockmode \<Rightarrow> envptr \<Rightarrow> event list" where
  "attempt_events m r =
     (case m of Shared \<Rightarrow> [EvRLock r, EvTxn r, EvRUnlock r]
              | Exclusive \<Rightarrow> [EvLock r, EvTxn r, EvUnlock r])"

definition rounds_events :: "lockmode \<Rightarrow> envptr \<Rightarrow> (Bag \<times> err) list \<Rightarrow> event list" where
  "rounds_events m r hs = concat (map (\<lambda>(b, x). attempt_events m r @ [EvHandle b x]) hs)"

text \<open>The bag of the first handler call in a list of events.\<close>

fun first_handled :: "event list \<Rightarrow> Bag option" where
  "first_handled [] = None"
| "first_handled (EvHandle b x # evs) = Some b"
| "first_handled (ev # evs) = first_handled evs"

text \<open>
  One round: an attempt and the handler's answer to it. \<open>chain_output n\<close> is the
  handler's answer in round \<open>n\<close> (counted from 0) when every round starts from the bag
  and the state the round before has left, whatever the answers were.
  A round \<open>answers\<close> with an error and \<open>leaves\<close> a state when it returns them.
  \<open>first_final n \<dots> e \<sigma>'\<close> says that the answers of the rounds before \<open>n\<close> are the
  retry sentinel and that the answer of round \<open>n\<close> is \<open>e\<close>, not the sentinel, leaving
  state \<open>\<sigma>'\<close>.
\<close>

definition attempt ::
  "envptr \<Rightarrow> bool \<Rightarrow> ('w \<Rightarrow> err \<times> 'w) \<Rightarrow> 'w Handler \<Rightarrow> Bag \<Rightarrow> ('w, 'op) state
     \<Rightarrow> (Bag \<times> err, ('w, 'op) state) outcome" where
  "attempt r readonly fn h b \<sigma> =
     andThen (run r readonly fn \<sigma>) (\<lambda>err \<sigma>1.
       case HandleTxnErr h b err \<sigma>1 of (be, \<sigma>2) \<Rightarrow> Returned be \<sigma>2)"

fun chain_output ::
  "nat \<Rightarrow> envptr \<Rightarrow> bool \<Rightarrow> ('w \<Rightarrow> err \<times> 'w) \<Rightarrow> 'w Handler \<Rightarrow> Bag \<Rightarrow> ('w, 'op) state
     \<Rightarrow> (Bag \<times> err, ('w, 'op) state) outcome" where
  "chain_output 0 r readonly fn h b \<sigma> = attempt r readonly fn h b \<sigma>"
| "chain_output (Suc n) r readonly fn h b \<sigma> =
     andThen (attempt r readonly fn h b \<sigma>)
       (\<lambda>be \<sigma>'. chain_output n r readonly fn h (fst be) \<sigma>')"

definition answers :: "(Bag \<times> err, 's) outcome \<Rightarrow> err \<Rightarrow> bool" where
  "answers out e = (case out of Returned be _ \<Rightarrow> snd be = e | _ \<Rightarrow> False)"

definition leaves :: "(Bag \<times> err, 's) outcome \<Rightarrow> 's \<Rightarrow> bool" where
  "leaves out \<sigma>' = (case out of Returned _ s \<Rightarrow> s = \<sigma>' | _ \<Rightarrow> False)"

definition first_final ::
  "nat \<Rightarrow> envptr \<Rightarrow> bool \<Rightarrow> ('w \<Rightarrow> err \<times> 'w) \<Rightarrow> 'w Handler \<Rightarrow> Bag \<Rightarrow> ('w, 'op) state
     \<Rightarrow> err \<Rightarrow> ('w, 'op) state \<Rightarrow> bool" where
  "first_final n r readonly fn h b \<sigma> e \<sigma>' \<longleftrightarrow>
     (\<forall>k<n. answers (chain_output k r readonly fn h b \<sigma>) (Some RetryTxn))
     \<and> answers (chain_output n r readonly fn h b \<sigma>) e
     \<and> leaves (chain_output n r readonly fn h b \<sigma>) \<sigma>'
     \<and> e \<noteq> Some RetryTxn"

section \<open>A concrete engine, handler and state\<close>

text \<open>
  An engine over a world that counts the transactions executed so far. A transaction
  body is given by the error of each of its invocations, and every transaction method
  invokes the body once and returns its error. Opening fails for the empty path, setting
  and unsetting flags fail for a flags word with bit 0; the other methods succeed.
\<close>

definition example_engine :: "(nat, nat \<Rightarrow> err) lmdb_Env" where
  "example_engine =
     \<lparr>lmdb_Open = (\<lambda>path flags mode w. (if path = [] then Some (ErrnoSys 2) else None, w)),
      lmdb_SetFlags = (\<lambda>flags w. (if flags AND 1 \<noteq> 0 then Some (ErrnoSys EINVAL) else None, w)),
      lmdb_UnsetFlags = (\<lambda>flags w. (if flags AND 1 \<noteq> 0 then Some (ErrnoSys EINVAL) else None, w)),
      lmdb_Flags = (\<lambda>w. ((0, None), w)),
      lmdb_SetMapSize = (\<lambda>sz w. (None, w)),
      lmdb_RunTxn = (\<lambda>flags op w. (op w, Suc w)),
      lmdb_View = (\<lambda>op w. (op w, Suc w)),
      lmdb_Update = (\<lambda>op w. (op w, Suc w)),
      lmdb_UpdateLocked = (\<lambda>op w. (op w, Suc w))\<rparr>"

definition example_lmdb :: "(nat, nat \<Rightarrow> err) lmdb" where
  "example_lmdb =
     \<lparr>lmdb_NewEnv = (\<lambda>w. ((Some example_engine, None), w)),
      NoLock = 0x400000,
      Readonly = 0x20000\<rparr>"

text \<open>A body that meets a resized map on its first two invocations and then succeeds.\<close>

definition example_body :: "nat \<Rightarrow> err" where
  "example_body k = (if k < 2 then Some MapResized else None)"

text \<open>
  A handler that answers the resize-race error by the retry sentinel and passes on every
  other error, and nil, unchanged.
\<close>

definition example_handler :: "nat Handler" where
  "example_handler b e w = (if e = Some MapResized then ((b, Some RetryTxn), w) else ((b, e), w))"

text \<open>
  A state with one wrapper, at address 0, around the example engine, with the given
  lock-mode flag and a free mutex; and the state that a transaction of the example body
  leaves behind: three rounds, the first two answered by the retry sentinel.
\<close>

definition example_env :: "bool \<Rightarrow> (nat, nat \<Rightarrow> err) Env" where
  "example_env nl =
     \<lparr>Env_lmdb = example_engine, Handlers = [example_handler], bag = Background,
      noLock = nl, txnlock = \<lparr>writer = False, readers = 0\<rparr>\<rparr>"

definition example_state :: "bool \<Rightarrow> (nat, nat \<Rightarrow> err) state" where
  "example_state nl = \<lparr>world = 0, heap = [example_env nl], trace = []\<rparr>"

definition example_bag :: Bag where
  "example_bag = BagWith Background (envBagKey 0) (Some (EnvValue (Some 0)))"

definition example_round :: "bool \<Rightarrow> bool \<Rightarrow> err \<Rightarrow> event list" where
  "example_round nl readonly x =
     (if nl \<and> \<not> readonly then [EvLock 0, EvTxn 0, EvUnlock 0]
      else [EvRLock 0, EvTxn 0, EvRUnlock 0]) @ [EvHandle example_bag x]"

definition example_state_after :: "bool \<Rightarrow> bool \<Rightarrow> (nat, nat \<Rightarrow> err) state" where
  "example_state_after nl readonly =
     \<lparr>world = 3, heap = [example_env nl],
      trace = example_round nl readonly (Some MapResized)
              @ example_round nl readonly (Some MapResized)
              @ example_round nl readonly None\<rparr>"

section \<open>Auxiliary facts\<close>

lemmas lock_defs = txnlock_Lock_def txnlock_Unlock_def txnlock_RLock_def txnlock_RUnlock_def
  RWMutex_Lock_def RWMutex_Unlock_def RWMutex_RLock_def RWMutex_RUnlock_def

lemmas example_defs = example_state_def example_env_def example_engine_def example_lmdb_def
  example_body_def example_handler_def

lemma unlocked_writer: "\<not> writer m \<Longrightarrow> m\<lparr>writer := False\<rparr> = m"
  by simp

lemma readers_same: "readers m = n \<Longrightarrow> m\<lparr>readers := n\<rparr> = m"
  by auto

lemma deref_heap_eq: "heap \<sigma>' = heap \<sigma> \<Longrightarrow> deref \<sigma>' r = deref \<sigma> r"
  by (simp add: deref_def)

lemma run_in_mode:
  assumes "deref \<sigma> r = Some env"
    and "acquirable (admission_mode (noLock env) readonly) (txnlock env)"
  shows "run r readonly fn \<sigma> =
           Returned (fst (fn (world \<sigma>)))
             (\<sigma>\<lparr>world := snd (fn (world \<sigma>)),
                trace := trace \<sigma> @ attempt_events (admission_mode (noLock env) readonly) r\<rparr>)"
  using assms
  by (auto simp: run_def andThen_def lock_defs call_def deref_def store_def emit_def
      readers_same unlocked_writer admission_mode_def acquirable_def attempt_events_def
      split: prod.splits if_splits)

lemma run_returned_acquirable:
  assumes "run r readonly fn \<sigma> = Returned err \<sigma>1" and "deref \<sigma> r = Some env"
  shows "acquirable (admission_mode (noLock env) readonly) (txnlock env)"
  using assms
  by (auto simp: run_def andThen_def lock_defs admission_mode_def acquirable_def
      split: if_splits option.splits)

lemma attempt_in_mode:
  assumes "deref \<sigma> r = Some env"
    and "acquirable (admission_mode (noLock env) readonly) (txnlock env)"
  shows "attempt r readonly fn h b \<sigma> =
           Returned (fst (h b (fst (fn (world \<sigma>))) (snd (fn (world \<sigma>)))))
             (\<sigma>\<lparr>world := snd (h b (fst (fn (world \<sigma>))) (snd (fn (world \<sigma>)))),
                trace := trace \<sigma> @ attempt_events (admission_mode (noLock env) readonly) r
                           @ [EvHandle b (fst (fn (world \<sigma>)))]\<rparr>)"
  by (simp add: attempt_def run_in_mode [OF assms] andThen_def HandleTxnErr_def call_def emit_def
      split: prod.splits)

lemma attempt_returned_acquirable:
  assumes "attempt r readonly fn h b \<sigma> = Returned be \<sigma>1" and "deref \<sigma> r = Some env"
  shows "acquirable (admission_mode (noLock env) readonly) (txnlock env)"
proof -
  from assms(1) obtain err \<sigma>0 where "run r readonly fn \<sigma> = Returned err \<sigma>0"
    by (auto simp: attempt_def andThen_def split: outcome.splits)
  then show ?thesis using assms(2) by (rule run_returned_acquirable)
qed

lemma loop_unfold:
  "runHandler_loop r readonly fn h b \<sigma> =
     (case attempt r readonly fn h b \<sigma> of
        Returned be \<sigma>2 \<Rightarrow>
          if snd be \<noteq> Some RetryTxn then Some (Returned (snd be) \<sigma>2)
          else runHandler_loop r readonly fn h (fst be) \<sigma>2
      | Blocked s \<Rightarrow> Some (Blocked s)
      | Panicked \<Rightarrow> Some Panicked)"
  by (subst runHandler_loop.simps)
     (simp add: attempt_def andThen_def split: outcome.splits prod.splits)

lemma first_final_alt:
  "first_final n r readonly fn h b \<sigma> e \<sigma>' \<longleftrightarrow>
     (\<forall>k<n. \<exists>b' \<sigma>k. chain_output k r readonly fn h b \<sigma> = Returned (b', Some RetryTxn) \<sigma>k)
     \<and> (\<exists>b'. chain_output n r readonly fn h b \<sigma> = Returned (b', e) \<sigma>')
     \<and> e \<noteq> Some RetryTxn"
proof -
  have a: "answers out x \<longleftrightarrow> (\<exists>b' s. out = Returned (b', x) s)"
    for out :: "(Bag \<times> err, ('w, 'op) state) outcome" and x
    by (cases out) (auto simp: answers_def)
  show ?thesis
    by (auto simp: first_final_def a leaves_def)
qed

lemma first_final_0:
  "first_final 0 r readonly fn h b \<sigma> e \<sigma>' \<longleftrightarrow>
     (\<exists>b'. attempt r readonly fn h b \<sigma> = Returned (b', e) \<sigma>') \<and> e \<noteq> Some RetryTxn"
  by (simp add: first_final_alt)

lemma first_final_Suc:
  "first_final (Suc n) r readonly fn h b \<sigma> e \<sigma>' \<longleftrightarrow>
     (\<exists>b1 \<sigma>1. attempt r readonly fn h b \<sigma> = Returned (b1, Some RetryTxn) \<sigma>1
        \<and> first_final n r readonly fn h b1 \<sigma>1 e \<sigma>')"
proof
  assume L: "first_final (Suc n) r readonly fn h b \<sigma> e \<sigma>'"
  then obtain b1 \<sigma>1 where a: "attempt r readonly fn h b \<sigma> = Returned (b1, Some RetryTxn) \<sigma>1"
    unfolding first_final_alt by (metis chain_output.simps(1) zero_less_Suc)
  have "first_final n r readonly fn h b1 \<sigma>1 e \<sigma>'"
    unfolding first_final_alt
  proof (intro conjI allI impI)
    fix k assume "k < n"
    then have "Suc k < Suc n" by simp
    with L obtain b' \<sigma>k where
      "chain_output (Suc k) r readonly fn h b \<sigma> = Returned (b', Some RetryTxn) \<sigma>k"
      unfolding first_final_alt by blast
    then show "\<exists>b' \<sigma>k. chain_output k r readonly fn h b1 \<sigma>1 = Returned (b', Some RetryTxn) \<sigma>k"
      using a by (simp add: andThen_def)
  next
    from L obtain b' where "chain_output (Suc n) r readonly fn h b \<sigma> = Returned (b', e) \<sigma>'"
      unfolding first_final_alt by blast
    then show "\<exists>b'. chain_output n r readonly fn h b1 \<sigma>1 = Returned (b', e) \<sigma>'"
      using a by (simp add: andThen_def)
  next
    from L show "e \<noteq> Some RetryTxn" unfolding first_final_alt by blast
  qed
  with a show "\<exists>b1 \<sigma>1. attempt r readonly fn h b \<sigma> = Returned (b1, Some RetryTxn) \<sigma>1
        \<and> first_final n r readonly fn h b1 \<sigma>1 e \<sigma>'" by blast
next
  assume "\<exists>b1 \<sigma>1. attempt r readonly fn h b \<sigma> = Returned (b1, Some RetryTxn) \<sigma>1
        \<and> first_final n r readonly fn h b1 \<sigma>1 e \<sigma>'"
  then obtain b1 \<sigma>1 where a: "attempt r readonly fn h b \<sigma> = Returned (b1, Some RetryTxn) \<sigma>1"
    and f: "first_final n r readonly fn h b1 \<sigma>1 e \<sigma>'" by blast
  show "first_final (Suc n) r readonly fn h b \<sigma> e \<sigma>'"
    unfolding first_final_alt
  proof (intro conjI allI impI)
    fix k assume k: "k < Suc n"
    show "\<exists>b' \<sigma>k. chain_output k r readonly fn h b \<sigma> = Returned (b', Some RetryTxn) \<sigma>k"
    proof (cases k)
      case 0 then show ?thesis using a by simp
    next
      case (Suc j)
      with k have "j < n" by simp
      with f obtain b' \<sigma>k where "chain_output j r readonly fn h b1 \<sigma>1 = Returned (b', Some RetryTxn) \<sigma>k"
        unfolding first_final_alt by blast
      then show ?thesis using a Suc by (simp add: andThen_def)
    qed
  next
    from f obtain b' where "chain_output n r readonly fn h b1 \<sigma>1 = Returned (b', e) \<sigma>'"
      unfolding first_final_alt by blast
    then show "\<exists>b'. chain_output (Suc n) r readonly fn h b \<sigma> = Returned (b', e) \<sigma>'"
      using a by (simp add: andThen_def)
  next
    from f show "e \<noteq> Some RetryTxn" unfolding first_final_alt by blast
  qed
qed

lemma loop_returns_first_final:
  "first_final n r readonly fn h b \<sigma> e \<sigma>' \<Longrightarrow>
     runHandler_loop r readonly fn h b \<sigma> = Some (Returned e \<sigma>')"
proof (induction n arbitrary: b \<sigma>)
  case 0
  then show ?case
    by (subst loop_unfold) (auto simp: first_final_0)
next
  case (Suc n)
  then obtain b1 \<sigma>1 where a: "attempt r readonly fn h b \<sigma> = Returned (b1, Some RetryTxn) \<sigma>1"
    and f: "first_final n r readonly fn h b1 \<sigma>1 e \<sigma>'"
    by (auto simp: first_final_Suc)
  from Suc.IH [OF f] a show ?case
    by (subst loop_unfold) simp
qed

lemma loop_result_is_first_final:
  assumes "runHandler_loop r readonly fn h b \<sigma> = Some y"
  shows "\<forall>e \<sigma>'. y = Returned e \<sigma>' \<longrightarrow> (\<exists>n. first_final n r readonly fn h b \<sigma> e \<sigma>')"
proof (rule runHandler_loop.raw_induct [OF _ assms], goal_cases)
  case (1 loop r readonly fn h b \<sigma> y)
  show ?case
  proof (intro allI impI)
    fix e \<sigma>' assume y: "y = Returned e \<sigma>'"
    show "\<exists>n. first_final n r readonly fn h b \<sigma> e \<sigma>'"
    proof (cases "attempt r readonly fn h b \<sigma>")
      case (Returned be \<sigma>2)
      obtain b1 e1 where be: "be = (b1, e1)" by (cases be)
      have run: "\<exists>err \<sigma>1. run r readonly fn \<sigma> = Returned err \<sigma>1
                   \<and> HandleTxnErr h b err \<sigma>1 = ((b1, e1), \<sigma>2)"
        using Returned be
        by (auto simp: attempt_def andThen_def split: outcome.splits prod.splits)
      then obtain err \<sigma>1 where r1: "run r readonly fn \<sigma> = Returned err \<sigma>1"
        and h1: "HandleTxnErr h b err \<sigma>1 = ((b1, e1), \<sigma>2)" by blast
      show ?thesis
      proof (cases "e1 = Some RetryTxn")
        case False
        with 1(2) r1 h1 y have "e = e1" "\<sigma>' = \<sigma>2" by auto
        with Returned be False have "first_final 0 r readonly fn h b \<sigma> e \<sigma>'"
          by (auto simp: first_final_0)
        then show ?thesis ..
      next
        case True
        with 1(2) r1 h1 have "loop r readonly fn h b1 \<sigma>2 = Some y" by simp
        from 1(1) [OF this] y obtain n where "first_final n r readonly fn h b1 \<sigma>2 e \<sigma>'"
          by blast
        with Returned be True have "first_final (Suc n) r readonly fn h b \<sigma> e \<sigma>'"
          by (auto simp: first_final_Suc)
        then show ?thesis ..
      qed
    next
      case (Blocked s)
      then have "run r readonly fn \<sigma> = Blocked s"
        by (auto simp: attempt_def andThen_def split: outcome.splits prod.splits)
      with 1(2) y show ?thesis by simp
    next
      case Panicked
      then have "run r readonly fn \<sigma> = Panicked"
        by (auto simp: attempt_def andThen_def split: outcome.splits prod.splits)
      with 1(2) y show ?thesis by simp
    qed
  qed
qed

lemma first_final_trace:
  assumes "first_final n r readonly fn h b \<sigma> e \<sigma>'"
    and "deref \<sigma> r = Some env"
    and "acquirable (admission_mode (noLock env) readonly) (txnlock env)"
  shows "\<exists>x hs. heap \<sigma>' = heap \<sigma> \<and> length hs = n \<and>
           trace \<sigma>' = trace \<sigma> @ rounds_events (admission_mode (noLock env) readonly) r ((b, x) # hs)"
  using assms
proof (induction n arbitrary: b \<sigma>)
  case 0
  then show ?case
    by (auto simp: first_final_0 attempt_in_mode rounds_events_def)
next
  case (Suc n)
  from Suc.prems(1) obtain b1 \<sigma>1 where
    a: "attempt r readonly fn h b \<sigma> = Returned (b1, Some RetryTxn) \<sigma>1"
    and f: "first_final n r readonly fn h b1 \<sigma>1 e \<sigma>'"
    by (auto simp: first_final_Suc)
  let ?m = "admission_mode (noLock env) readonly"
  from a have s1: "heap \<sigma>1 = heap \<sigma>"
    and t1: "trace \<sigma>1 = trace \<sigma> @ attempt_events ?m r @ [EvHandle b (fst (fn (world \<sigma>)))]"
    by (auto simp: attempt_in_mode [OF Suc.prems(2,3)])
  from s1 Suc.prems(2) have d1: "deref \<sigma>1 r = Some env" by (simp add: deref_def split: if_splits)
  from Suc.IH [OF f d1 Suc.prems(3)] obtain x hs where
    "heap \<sigma>' = heap \<sigma>1" "length hs = n"
    "trace \<sigma>' = trace \<sigma>1 @ rounds_events ?m r ((b1, x) # hs)" by blast
  with s1 t1 have "heap \<sigma>' = heap \<sigma> \<and> length ((b1, x) # hs) = Suc n \<and>
      trace \<sigma>' = trace \<sigma> @ rounds_events ?m r ((b, fst (fn (world \<sigma>))) # (b1, x) # hs)"
    by (simp add: rounds_events_def)
  then show ?case by blast
qed

lemma first_final_acquirable:
  assumes "first_final n r readonly fn h b \<sigma> e \<sigma>'" and "deref \<sigma> r = Some env"
  shows "acquirable (admission_mode (noLock env) readonly) (txnlock env)"
proof (cases n)
  case 0
  with assms(1) obtain b' where "attempt r readonly fn h b \<sigma> = Returned (b', e) \<sigma>'"
    by (auto simp: first_final_0)
  then show ?thesis using assms(2) by (rule attempt_returned_acquirable)
next
  case (Suc m)
  with assms(1) obtain b1 \<sigma>1 where "attempt r readonly fn h b \<sigma> = Returned (b1, Some RetryTxn) \<sigma>1"
    by (auto simp: first_final_Suc)
  then show ?thesis using assms(2) by (rule attempt_returned_acquirable)
qed

lemma runHandler_returned_iff:
  assumes "deref \<sigma> r = Some env"
  shows "runHandler r readonly fn h \<sigma> = Some (Returned e \<sigma>') \<longleftrightarrow>
           (\<exists>n. first_final n r readonly fn h (bagWithEnv (bag env) (Some r)) \<sigma> e \<sigma>')"
  using assms loop_returns_first_final loop_result_is_first_final
  by (fastforce simp: runHandler_def)

lemma runHandler_returned_trace:
  assumes "runHandler r readonly fn h \<sigma> = Some (Returned e \<sigma>')" and "deref \<sigma> r = Some env"
  shows "\<exists>x hs. heap \<sigma>' = heap \<sigma> \<and>
           trace \<sigma>' = trace \<sigma> @ rounds_events (admission_mode (noLock env) readonly) r
                                  ((bagWithEnv (bag env) (Some r), x) # hs)"
proof -
  from assms obtain n where f: "first_final n r readonly fn h (bagWithEnv (bag env) (Some r)) \<sigma> e \<sigma>'"
    by (auto simp: runHandler_returned_iff)
  from first_final_trace [OF f assms(2) first_final_acquirable [OF f assms(2)]]
  show ?thesis by blast
qed

lemma first_handled_rounds:
  "first_handled (rounds_events m r ((b, x) # hs)) = Some b"
  by (cases m) (simp_all add: rounds_events_def attempt_events_def)

lemmas txn_defs = RunTxn_def View_def Update_def UpdateLocked_def

lemmas runner_defs = handlerRunner_RunTxn_def handlerRunner_View_def handlerRunner_Update_def
  handlerRunner_UpdateLocked_def

lemma example_deref: "deref (example_state nl) 0 = Some (example_env nl)"
  by (simp add: deref_def example_state_def)

lemma example_acquirable: "acquirable m (txnlock (example_env nl))"
  by (cases m) (simp_all add: acquirable_def example_env_def)

lemma example_attempt:
  "attempt 0 readonly (\<lambda>w. (example_body w, Suc w))
      (HandlerChain_HandleTxnErr [example_handler]) b (example_state nl\<lparr>world := w, trace := t\<rparr>) =
     Returned (b, if w < 2 then Some RetryTxn else None)
       (example_state nl\<lparr>world := Suc w,
          trace := t @ (if nl \<and> \<not> readonly then [EvLock 0, EvTxn 0, EvUnlock 0]
                        else [EvRLock 0, EvTxn 0, EvRUnlock 0])
                     @ [EvHandle b (if w < 2 then Some MapResized else None)]\<rparr>)"
proof -
  have d: "deref (example_state nl\<lparr>world := w, trace := t\<rparr>) 0 = Some (example_env nl)"
    by (simp add: deref_def example_state_def)
  show ?thesis
    by (simp add: attempt_in_mode [OF d example_acquirable])
       (simp add: example_defs admission_mode_def attempt_events_def)
qed

lemma example_first_final:
  "first_final 2 0 readonly (\<lambda>w. (example_body w, Suc w))
     (HandlerChain_HandleTxnErr [example_handler]) example_bag (example_state nl) None
     (example_state_after nl readonly)"
proof -
  have s: "example_state nl = example_state nl\<lparr>world := 0, trace := []\<rparr>"
    by (simp add: example_state_def)
  have "first_final (Suc (Suc 0)) 0 readonly (\<lambda>w. (example_body w, Suc w))
     (HandlerChain_HandleTxnErr [example_handler]) example_bag
     (example_state nl\<lparr>world := 0, trace := []\<rparr>) None (example_state_after nl readonly)"
    by (simp add: first_final_Suc first_final_0 example_attempt)
       (simp add: example_state_after_def example_state_def example_round_def)
  with s show ?thesis by (simp add: numeral_2_eq_2)
qed

lemma example_runHandler:
  "runHandler 0 readonly (\<lambda>w. (example_body w, Suc w))
     (HandlerChain_HandleTxnErr [example_handler]) (example_state nl)
   = Some (Returned None (example_state_after nl readonly))"
  using loop_returns_first_final [OF example_first_final, of readonly nl]
  by (simp add: runHandler_def example_deref)
     (simp add: example_env_def example_bag_def bagWithEnv_def)

lemma example_transactions:
  "View 0 example_body (example_state nl) = Some (Returned None (example_state_after nl True))"
  "Update 0 example_body (example_state nl) = Some (Returned None (example_state_after nl False))"
  "UpdateLocked 0 example_body (example_state nl)
     = Some (Returned None (example_state_after nl False))"
  "RunTxn example_lmdb 0 0x20000 example_body (example_state nl)
     = Some (Returned None (example_state_after nl True))"
  "RunTxn example_lmdb 0 0 example_body (example_state nl)
     = Some (Returned None (example_state_after nl False))"
  using example_runHandler [of True nl] example_runHandler [of False nl]
  by (simp_all add: txn_defs example_deref)
     (simp_all add: example_env_def example_engine_def example_lmdb_def)

lemma example_chain_twice:
  "HandlerChain_HandleTxnErr [example_handler, example_handler]
     = HandlerChain_HandleTxnErr [example_handler]"
  by (rule ext)+ (simp add: example_handler_def)

lemma example_runner_transactions:
  "handlerRunner_View \<lparr>runner_env = 0, runner_h = [example_handler, example_handler]\<rparr>
      example_body (example_state nl) = Some (Returned None (example_state_after nl True))"
  "handlerRunner_Update \<lparr>runner_env = 0, runner_h = [example_handler, example_handler]\<rparr>
      example_body (example_state nl) = Some (Returned None (example_state_after nl False))"
  "handlerRunner_UpdateLocked \<lparr>runner_env = 0, runner_h = [example_handler, example_handler]\<rparr>
      example_body (example_state nl) = Some (Returned None (example_state_after nl False))"
  "handlerRunner_RunTxn example_lmdb \<lparr>runner_env = 0, runner_h = [example_handler, example_handler]\<rparr>
      0 example_body (example_state nl) = Some (Returned None (example_state_after nl False))"
  using example_runHandler [of True nl] example_runHandler [of False nl]
  by (simp_all add: runner_defs example_deref example_chain_twice)
     (simp_all add: example_env_def example_engine_def example_lmdb_def)

lemma attempt_events_txn_count:
  "length (filter ((=) (EvTxn r)) (attempt_events m r)) = 1"
  by (cases m) (simp_all add: attempt_events_def)

lemma retry_until_success:
  fixes count :: "'w \<Rightarrow> nat"
  assumes d: "deref \<sigma> r = Some env"
    and a: "acquirable (admission_mode (noLock env) readonly) (txnlock env)"
    and inc: "\<forall>w. count (snd (fn w)) = Suc (count w)"
    and hc: "\<forall>b x w. count (snd (h b x w)) = count w"
    and early: "\<forall>w. Suc (count w) < N \<longrightarrow> fst (fn w) = Some MapResized"
    and last: "\<forall>w. Suc (count w) = N \<longrightarrow> fst (fn w) = None"
    and conv: "\<forall>b w. snd (fst (h b (Some MapResized) w)) = Some RetryTxn"
    and pass: "\<forall>b w. snd (fst (h b None w)) = None"
    and k: "count (world \<sigma>) + k + 1 = N"
  shows "\<exists>\<sigma>'. runHandler_loop r readonly fn h b \<sigma> = Some (Returned None \<sigma>')
           \<and> count (world \<sigma>') = N \<and> heap \<sigma>' = heap \<sigma>
           \<and> length (filter ((=) (EvTxn r)) (trace \<sigma>'))
               = length (filter ((=) (EvTxn r)) (trace \<sigma>)) + k + 1"
  using d k
proof (induction k arbitrary: b \<sigma>)
  case 0
  let ?x = "fst (fn (world \<sigma>))" and ?w = "snd (fn (world \<sigma>))"
  from 0 inc have c: "Suc (count (world \<sigma>)) = N" by simp
  with last have x: "?x = None" by blast
  have "attempt r readonly fn h b \<sigma> =
          Returned (fst (h b None ?w))
            (\<sigma>\<lparr>world := snd (h b None ?w),
               trace := trace \<sigma> @ attempt_events (admission_mode (noLock env) readonly) r
                          @ [EvHandle b None]\<rparr>)"
    using attempt_in_mode [OF "0.prems"(1) a, of fn h b] x by simp
  then show ?case
    using pass hc inc c
    by (subst loop_unfold) (simp add: attempt_events_txn_count)
next
  case (Suc k)
  let ?x = "fst (fn (world \<sigma>))" and ?w = "snd (fn (world \<sigma>))"
  let ?\<sigma>1 = "\<sigma>\<lparr>world := snd (h b (Some MapResized) ?w),
               trace := trace \<sigma> @ attempt_events (admission_mode (noLock env) readonly) r
                          @ [EvHandle b (Some MapResized)]\<rparr>"
  from Suc.prems have "Suc (count (world \<sigma>)) < N" by simp
  with early have x: "?x = Some MapResized" by blast
  have at: "attempt r readonly fn h b \<sigma> = Returned (fst (h b (Some MapResized) ?w)) ?\<sigma>1"
    using attempt_in_mode [OF Suc.prems(1) a, of fn h b] x by simp
  have d1: "deref ?\<sigma>1 r = Some env" using Suc.prems(1) by (simp add: deref_def split: if_splits)
  have k1: "count (world ?\<sigma>1) + k + 1 = N" using Suc.prems(2) hc inc by simp
  from Suc.IH [OF d1 k1, of "fst (fst (h b (Some MapResized) ?w))"] obtain \<sigma>' where
    "runHandler_loop r readonly fn h (fst (fst (h b (Some MapResized) ?w))) ?\<sigma>1
       = Some (Returned None \<sigma>')"
    "count (world \<sigma>') = N" "heap \<sigma>' = heap ?\<sigma>1"
    "length (filter ((=) (EvTxn r)) (trace \<sigma>'))
       = length (filter ((=) (EvTxn r)) (trace ?\<sigma>1)) + k + 1" by blast
  then show ?case
    using at conv
    by (subst loop_unfold) (simp add: attempt_events_txn_count)
qed

lemma SetMapSize_never_returns: "SetMapSize r sz \<sigma> \<noteq> Returned err \<sigma>'"
  by (auto simp: SetMapSize_def setMapSize_def andThen_def lock_defs deref_def store_def emit_def
      split: option.splits if_splits outcome.splits)

section \<open>Resizing the map\<close>

text \<open>
  Claim C1. A call of \<open>SetMapSize\<close> should take the admission lock exclusively, invoke the
  engine's resize primitive exactly once, release the lock and return the primitive's
  result. On a wrapper whose lock is free the code takes the write lock and then waits
  for the same lock again inside \<open>setMapSize\<close>: the call blocks holding the lock, the
  trace shows one \<open>Lock\<close> and no call of the engine, and in the state in which it
  waits a \<open>View\<close> blocks as well. Called directly, \<open>setMapSize\<close> with delay 0 does what
  the claim says.
\<close>

theorem SetMapSize_waits_for_its_own_lock:
  "SetMapSize 0 1 (example_state False) =
     Blocked (example_state False
               \<lparr>heap := [example_env False\<lparr>txnlock := \<lparr>writer = True, readers = 0\<rparr>\<rparr>],
                trace := [EvLock 0]\<rparr>)
   \<and> View 0 example_body
         (example_state False
            \<lparr>heap := [example_env False\<lparr>txnlock := \<lparr>writer = True, readers = 0\<rparr>\<rparr>],
             trace := [EvLock 0]\<rparr>) =
       Some (Blocked (example_state False
               \<lparr>heap := [example_env False\<lparr>txnlock := \<lparr>writer = True, readers = 0\<rparr>\<rparr>],
                trace := [EvLock 0]\<rparr>))
   \<and> setMapSize 0 1 0 (example_state False) =
       Returned None (example_state False\<lparr>trace := [EvLock 0, EvSetMapSize 0 1, EvUnlock 0]\<rparr>)"
proof -
  have "View 0 example_body
         (example_state False
            \<lparr>heap := [example_env False\<lparr>txnlock := \<lparr>writer = True, readers = 0\<rparr>\<rparr>],
             trace := [EvLock 0]\<rparr>) =
       Some (Blocked (example_state False
               \<lparr>heap := [example_env False\<lparr>txnlock := \<lparr>writer = True, readers = 0\<rparr>\<rparr>],
                trace := [EvLock 0]\<rparr>))"
    by (simp add: View_def runHandler_def deref_def example_state_def)
       (subst runHandler_loop.simps,
        simp add: run_def andThen_def lock_defs deref_def example_env_def)
  then show ?thesis
    by (simp add: SetMapSize_def setMapSize_def andThen_def lock_defs deref_def store_def emit_def
        call_def example_defs)
qed

section \<open>Admission of transactions\<close>

text \<open>
  Claim C2. Every transaction attempt made through \<open>RunTxn\<close>, \<open>View\<close>, \<open>Update\<close> or
  \<open>UpdateLocked\<close> holds the admission lock, for the duration of the engine call, in
  the mode of the admission rule: shared when the lock-mode flag is unset; with the flag
  set, exclusive for a write attempt and shared for a read attempt. An attempt is a call
  of \<open>run\<close>: in whatever state it starts, if the lock can be taken in the mode that the
  rule gives for the flag of that state, the attempt takes the lock in this mode, calls
  the engine, releases the lock and returns the engine's error, so the rule is evaluated
  anew in each attempt. What a returning call of one of the four operations adds to the
  trace is a sequence of rounds, each an attempt in the mode of the rule followed by the
  call of the chain, where \<open>RunTxn\<close> is read-only when its flags have the read-only bit,
  \<open>View\<close> is read-only, and \<open>Update\<close> and \<open>UpdateLocked\<close> are not.
\<close>

theorem attempts_hold_lock_in_admission_mode:
  assumes "deref \<sigma> r = Some env"
  shows "(acquirable (admission_mode (noLock env) readonly) (txnlock env) \<longrightarrow>
            run r readonly fn \<sigma> =
              Returned (fst (fn (world \<sigma>)))
                (\<sigma>\<lparr>world := snd (fn (world \<sigma>)),
                    trace := trace \<sigma> @ attempt_events (admission_mode (noLock env) readonly) r\<rparr>))
       \<and> (RunTxn L r flags op \<sigma> = Some (Returned e \<sigma>') \<longrightarrow>
            (\<exists>hs. hs \<noteq> [] \<and> trace \<sigma>' = trace \<sigma> @
               rounds_events (admission_mode (noLock env) (flags AND Readonly L \<noteq> 0)) r hs))
       \<and> (View r op \<sigma> = Some (Returned e \<sigma>') \<longrightarrow>
            (\<exists>hs. hs \<noteq> [] \<and> trace \<sigma>' = trace \<sigma> @
               rounds_events (admission_mode (noLock env) True) r hs))
       \<and> (Update r op \<sigma> = Some (Returned e \<sigma>') \<longrightarrow>
            (\<exists>hs. hs \<noteq> [] \<and> trace \<sigma>' = trace \<sigma> @
               rounds_events (admission_mode (noLock env) False) r hs))
       \<and> (UpdateLocked r op \<sigma> = Some (Returned e \<sigma>') \<longrightarrow>
            (\<exists>hs. hs \<noteq> [] \<and> trace \<sigma>' = trace \<sigma> @
               rounds_events (admission_mode (noLock env) False) r hs))"
proof -
  have ops: "\<exists>hs. hs \<noteq> [] \<and> trace \<sigma>' = trace \<sigma> @
               rounds_events (admission_mode (noLock env) ro) r hs"
    if "runHandler r ro fn' h \<sigma> = Some (Returned e \<sigma>')" for ro fn' h
    using runHandler_returned_trace [OF that assms] by blast
  show ?thesis
    using assms by (auto simp: txn_defs run_in_mode intro: ops)
qed

theorem attempts_hold_lock_in_admission_mode_witness:
  "run 0 False (lmdb_Update example_engine example_body) (example_state False) =
     Returned (Some MapResized)
       (example_state False\<lparr>world := 1, trace := [EvRLock 0, EvTxn 0, EvRUnlock 0]\<rparr>)
   \<and> run 0 False (lmdb_Update example_engine example_body) (example_state True) =
       Returned (Some MapResized)
         (example_state True\<lparr>world := 1, trace := [EvLock 0, EvTxn 0, EvUnlock 0]\<rparr>)
   \<and> run 0 True (lmdb_View example_engine example_body) (example_state True) =
       Returned (Some MapResized)
         (example_state True\<lparr>world := 1, trace := [EvRLock 0, EvTxn 0, EvRUnlock 0]\<rparr>)
   \<and> (\<exists>hs. hs \<noteq> [] \<and> trace (example_state_after True True) = rounds_events Shared 0 hs)
   \<and> (\<exists>hs. hs \<noteq> [] \<and> trace (example_state_after True False) = rounds_events Exclusive 0 hs)
   \<and> (\<exists>hs. hs \<noteq> [] \<and> trace (example_state_after False False) = rounds_events Shared 0 hs)"
proof -
  note t = attempts_hold_lock_in_admission_mode [OF example_deref]
  have "run 0 False (lmdb_Update example_engine example_body) (example_state False) =
     Returned (Some MapResized)
       (example_state False\<lparr>world := 1, trace := [EvRLock 0, EvTxn 0, EvRUnlock 0]\<rparr>)"
    using t [of False False "lmdb_Update example_engine example_body"] example_acquirable
    by (simp add: example_defs admission_mode_def attempt_events_def)
  moreover
  have "run 0 False (lmdb_Update example_engine example_body) (example_state True) =
       Returned (Some MapResized)
         (example_state True\<lparr>world := 1, trace := [EvLock 0, EvTxn 0, EvUnlock 0]\<rparr>)"
    using t [of True False "lmdb_Update example_engine example_body"] example_acquirable
    by (simp add: example_defs admission_mode_def attempt_events_def)
  moreover
  have "run 0 True (lmdb_View example_engine example_body) (example_state True) =
       Returned (Some MapResized)
         (example_state True\<lparr>world := 1, trace := [EvRLock 0, EvTxn 0, EvRUnlock 0]\<rparr>)"
    using t [of True True "lmdb_View example_engine example_body"] example_acquirable
    by (simp add: example_defs admission_mode_def attempt_events_def)
  moreover
  have "\<exists>hs. hs \<noteq> [] \<and> trace (example_state_after True True) = rounds_events Shared 0 hs"
    using t [of True _ _ example_lmdb "0x20000" example_body None "example_state_after True True"]
      example_transactions [of True]
    by (simp add: example_state_def example_env_def example_lmdb_def admission_mode_def)
  moreover
  have "\<exists>hs. hs \<noteq> [] \<and> trace (example_state_after True False) = rounds_events Exclusive 0 hs"
    using t [of True _ _ _ _ example_body None "example_state_after True False"]
      example_transactions [of True]
    by (simp add: example_state_def example_env_def admission_mode_def)
  moreover
  have "\<exists>hs. hs \<noteq> [] \<and> trace (example_state_after False False) = rounds_events Shared 0 hs"
    using t [of False _ _ _ _ example_body None "example_state_after False False"]
      example_transactions [of False]
    by (simp add: example_state_def example_env_def admission_mode_def)
  ultimately show ?thesis by blast
qed

section \<open>The retry protocol\<close>

text \<open>
  Claim C3. Each of the four transaction operations returns exactly the first output of
  the handler chain that differs from the retry sentinel: the operation returns error
  \<open>e\<close> in state \<open>\<sigma>'\<close> if and only if for some \<open>n\<close> the chain answers the first \<open>n\<close>
  attempts by the retry sentinel, each of which causes another attempt, and answers the
  next attempt by \<open>e\<close>, which is not the sentinel, leaving \<open>\<sigma>'\<close>. So whatever the chain
  does not turn into the sentinel, nil and the map-full error included, reaches the
  caller unchanged.
\<close>

theorem transactions_return_first_final_chain_output:
  assumes "deref \<sigma> r = Some env"
  shows "(RunTxn L r flags op \<sigma> = Some (Returned e \<sigma>') \<longleftrightarrow>
            (\<exists>n. first_final n r (flags AND Readonly L \<noteq> 0) (lmdb_RunTxn (Env_lmdb env) flags op)
                   (HandlerChain_HandleTxnErr (Handlers env)) (bagWithEnv (bag env) (Some r)) \<sigma> e \<sigma>'))
       \<and> (View r op \<sigma> = Some (Returned e \<sigma>') \<longleftrightarrow>
            (\<exists>n. first_final n r True (lmdb_View (Env_lmdb env) op)
                   (HandlerChain_HandleTxnErr (Handlers env)) (bagWithEnv (bag env) (Some r)) \<sigma> e \<sigma>'))
       \<and> (Update r op \<sigma> = Some (Returned e \<sigma>') \<longleftrightarrow>
            (\<exists>n. first_final n r False (lmdb_Update (Env_lmdb env) op)
                   (HandlerChain_HandleTxnErr (Handlers env)) (bagWithEnv (bag env) (Some r)) \<sigma> e \<sigma>'))
       \<and> (UpdateLocked r op \<sigma> = Some (Returned e \<sigma>') \<longleftrightarrow>
            (\<exists>n. first_final n r False (lmdb_UpdateLocked (Env_lmdb env) op)
                   (HandlerChain_HandleTxnErr (Handlers env)) (bagWithEnv (bag env) (Some r)) \<sigma> e \<sigma>'))"
  using assms by (simp add: txn_defs runHandler_returned_iff [OF assms])

theorem transactions_return_first_final_chain_output_witness:
  "deref (example_state False) 0 = Some (example_env False)
   \<and> Update 0 example_body (example_state False)
       = Some (Returned None (example_state_after False False))
   \<and> View 0 example_body (example_state True)
       = Some (Returned None (example_state_after True True))
   \<and> first_final 2 0 False (lmdb_Update example_engine example_body)
        (HandlerChain_HandleTxnErr [example_handler]) example_bag (example_state False) None
        (example_state_after False False)
   \<and> (\<forall>n. \<not> first_final n 0 False (lmdb_Update example_engine example_body)
        (HandlerChain_HandleTxnErr [example_handler]) example_bag (example_state False)
        (Some MapFull) (example_state_after False False))"
proof -
  have e: "lmdb_Update example_engine example_body = (\<lambda>w. (example_body w, Suc w))"
    "lmdb_View example_engine example_body = (\<lambda>w. (example_body w, Suc w))"
    by (simp_all add: example_engine_def)
  have b: "bagWithEnv (bag (example_env nl)) (Some 0) = example_bag" for nl
    by (simp add: example_env_def example_bag_def bagWithEnv_def)
  have h: "Handlers (example_env nl) = [example_handler]"
    "Env_lmdb (example_env nl) = example_engine" for nl
    by (simp_all add: example_env_def)
  note tF = transactions_return_first_final_chain_output [OF example_deref [of False], unfolded b h]
  note tT = transactions_return_first_final_chain_output [OF example_deref [of True], unfolded b h]
  have u: "Update 0 example_body (example_state False)
       = Some (Returned None (example_state_after False False))"
    using tF [where op=example_body and e=None and ?\<sigma>'="example_state_after False False"]
      example_first_final [of False False] e by auto
  have v: "View 0 example_body (example_state True)
       = Some (Returned None (example_state_after True True))"
    using tT [where op=example_body and e=None and ?\<sigma>'="example_state_after True True"]
      example_first_final [of True True] e by auto
  have n: "\<forall>n. \<not> first_final n 0 False (lmdb_Update example_engine example_body)
        (HandlerChain_HandleTxnErr [example_handler]) example_bag (example_state False)
        (Some MapFull) (example_state_after False False)"
    using tF [where op=example_body and e="Some MapFull" and ?\<sigma>'="example_state_after False False"] u by simp
  from u v n example_first_final [of False False] e example_deref show ?thesis by simp
qed

text \<open>
  Claim C4. Let \<open>count\<close> say of a world how often the transaction body has been invoked:
  each engine update of the body raises it by one and the chain leaves it alone. If the
  body has not been invoked yet, the engine's update of the body returns the resize-race
  error on each of the first \<open>N - 1\<close> invocations and no error on invocation \<open>N\<close>, and
  the chain answers the resize-race error by the retry sentinel and nil by nil, as the
  baseline handler does, then \<open>Update\<close> returns no error, the body has been invoked
  exactly \<open>N\<close> times, and the trace shows exactly \<open>N\<close> further engine transactions.
\<close>

theorem update_retries_until_body_succeeds:
  fixes count :: "'w \<Rightarrow> nat"
  assumes "deref \<sigma> r = Some env"
    and "acquirable (admission_mode (noLock env) False) (txnlock env)"
    and "0 < N" and "count (world \<sigma>) = 0"
    and "\<forall>w. count (snd (lmdb_Update (Env_lmdb env) op w)) = Suc (count w)"
    and "\<forall>b x w. count (snd (HandlerChain_HandleTxnErr (Handlers env) b x w)) = count w"
    and "\<forall>w. Suc (count w) < N \<longrightarrow> fst (lmdb_Update (Env_lmdb env) op w) = Some MapResized"
    and "\<forall>w. Suc (count w) = N \<longrightarrow> fst (lmdb_Update (Env_lmdb env) op w) = None"
    and "\<forall>b w. snd (fst (HandlerChain_HandleTxnErr (Handlers env) b (Some MapResized) w))
                 = Some RetryTxn"
    and "\<forall>b w. snd (fst (HandlerChain_HandleTxnErr (Handlers env) b None w)) = None"
  shows "\<exists>\<sigma>'. Update r op \<sigma> = Some (Returned None \<sigma>')
           \<and> count (world \<sigma>') = N
           \<and> length (filter ((=) (EvTxn r)) (trace \<sigma>'))
               = length (filter ((=) (EvTxn r)) (trace \<sigma>)) + N"
proof -
  from assms(3,4) have k: "count (world \<sigma>) + (N - 1) + 1 = N" by simp
  from retry_until_success [OF assms(1,2,5,6,7,8,9,10) k,
      of "bagWithEnv (bag env) (Some r)"]
  show ?thesis using assms(1,3) by (auto simp: Update_def runHandler_def)
qed

theorem update_retries_until_body_succeeds_witness:
  "\<exists>\<sigma>'. Update 0 example_body (example_state True) = Some (Returned None \<sigma>')
         \<and> world \<sigma>' = 3
         \<and> length (filter ((=) (EvTxn 0)) (trace \<sigma>')) = 3"
  using update_retries_until_body_succeeds
    [of "example_state True" 0 "example_env True" 3 "\<lambda>w. w" example_body]
  by (simp add: example_deref example_acquirable)
     (simp add: example_defs)

section \<open>The lock-mode flag\<close>

text \<open>
  Claim C5. \<open>Open\<close>, \<open>SetFlags\<close> and \<open>UnsetFlags\<close> return the error of the engine call.
  If that error is not nil, no wrapper has changed, so the local lock-mode flag is as it
  was. If the engine call succeeds, the wrapper differs from before at most in the flag:
  \<open>Open\<close> and \<open>SetFlags\<close> set it when the flags argument has the lock-disable bit,
  \<open>UnsetFlags\<close> clears it when the argument has the bit, and without the bit the flag
  keeps its value.
\<close>

theorem lifecycle_proxies_update_flag_on_success_only:
  assumes "deref \<sigma> r = Some env"
  shows "(\<exists>\<sigma>'. Open L r path flags mode \<sigma>
              = Returned (fst (lmdb_Open (Env_lmdb env) path flags mode (world \<sigma>))) \<sigma>'
            \<and> (fst (lmdb_Open (Env_lmdb env) path flags mode (world \<sigma>)) \<noteq> None
                 \<longrightarrow> heap \<sigma>' = heap \<sigma>)
            \<and> (fst (lmdb_Open (Env_lmdb env) path flags mode (world \<sigma>)) = None
                 \<longrightarrow> deref \<sigma>' r
                       = Some (env\<lparr>noLock := (if flags AND NoLock L \<noteq> 0 then True else noLock env)\<rparr>)))
       \<and> (\<exists>\<sigma>'. SetFlags L r flags \<sigma>
              = Returned (fst (lmdb_SetFlags (Env_lmdb env) flags (world \<sigma>))) \<sigma>'
            \<and> (fst (lmdb_SetFlags (Env_lmdb env) flags (world \<sigma>)) \<noteq> None
                 \<longrightarrow> heap \<sigma>' = heap \<sigma>)
            \<and> (fst (lmdb_SetFlags (Env_lmdb env) flags (world \<sigma>)) = None
                 \<longrightarrow> deref \<sigma>' r
                       = Some (env\<lparr>noLock := (if flags AND NoLock L \<noteq> 0 then True else noLock env)\<rparr>)))
       \<and> (\<exists>\<sigma>'. UnsetFlags L r flags \<sigma>
              = Returned (fst (lmdb_UnsetFlags (Env_lmdb env) flags (world \<sigma>))) \<sigma>'
            \<and> (fst (lmdb_UnsetFlags (Env_lmdb env) flags (world \<sigma>)) \<noteq> None
                 \<longrightarrow> heap \<sigma>' = heap \<sigma>)
            \<and> (fst (lmdb_UnsetFlags (Env_lmdb env) flags (world \<sigma>)) = None
                 \<longrightarrow> deref \<sigma>' r
                       = Some (env\<lparr>noLock := (if flags AND NoLock L \<noteq> 0 then False else noLock env)\<rparr>)))"
proof (intro conjI)
  show "\<exists>\<sigma>'. Open L r path flags mode \<sigma>
              = Returned (fst (lmdb_Open (Env_lmdb env) path flags mode (world \<sigma>))) \<sigma>'
            \<and> (fst (lmdb_Open (Env_lmdb env) path flags mode (world \<sigma>)) \<noteq> None
                 \<longrightarrow> heap \<sigma>' = heap \<sigma>)
            \<and> (fst (lmdb_Open (Env_lmdb env) path flags mode (world \<sigma>)) = None
                 \<longrightarrow> deref \<sigma>' r
                       = Some (env\<lparr>noLock := (if flags AND NoLock L \<noteq> 0 then True else noLock env)\<rparr>))"
    using assms
    by (cases "lmdb_Open (Env_lmdb env) path flags mode (world \<sigma>)")
       (auto simp: Open_def call_def deref_def store_def split: if_splits)
  show "\<exists>\<sigma>'. SetFlags L r flags \<sigma>
              = Returned (fst (lmdb_SetFlags (Env_lmdb env) flags (world \<sigma>))) \<sigma>'
            \<and> (fst (lmdb_SetFlags (Env_lmdb env) flags (world \<sigma>)) \<noteq> None
                 \<longrightarrow> heap \<sigma>' = heap \<sigma>)
            \<and> (fst (lmdb_SetFlags (Env_lmdb env) flags (world \<sigma>)) = None
                 \<longrightarrow> deref \<sigma>' r
                       = Some (env\<lparr>noLock := (if flags AND NoLock L \<noteq> 0 then True else noLock env)\<rparr>))"
    using assms
    by (cases "lmdb_SetFlags (Env_lmdb env) flags (world \<sigma>)")
       (auto simp: SetFlags_def call_def deref_def store_def split: if_splits)
  show "\<exists>\<sigma>'. UnsetFlags L r flags \<sigma>
              = Returned (fst (lmdb_UnsetFlags (Env_lmdb env) flags (world \<sigma>))) \<sigma>'
            \<and> (fst (lmdb_UnsetFlags (Env_lmdb env) flags (world \<sigma>)) \<noteq> None
                 \<longrightarrow> heap \<sigma>' = heap \<sigma>)
            \<and> (fst (lmdb_UnsetFlags (Env_lmdb env) flags (world \<sigma>)) = None
                 \<longrightarrow> deref \<sigma>' r
                       = Some (env\<lparr>noLock := (if flags AND NoLock L \<noteq> 0 then False else noLock env)\<rparr>))"
    using assms
    by (cases "lmdb_UnsetFlags (Env_lmdb env) flags (world \<sigma>)")
       (auto simp: UnsetFlags_def call_def deref_def store_def split: if_splits)
qed

theorem lifecycle_proxies_update_flag_on_success_only_witness:
  "(\<exists>\<sigma>'. SetFlags example_lmdb 0 0x400000 (example_state False) = Returned None \<sigma>'
          \<and> deref \<sigma>' 0 = Some (example_env True))
   \<and> (\<exists>\<sigma>'. SetFlags example_lmdb 0 0x400001 (example_state False)
             = Returned (Some (ErrnoSys EINVAL)) \<sigma>'
          \<and> heap \<sigma>' = heap (example_state False))
   \<and> (\<exists>\<sigma>'. UnsetFlags example_lmdb 0 0x400000 (example_state True) = Returned None \<sigma>'
          \<and> deref \<sigma>' 0 = Some (example_env False))
   \<and> (\<exists>\<sigma>'. UnsetFlags example_lmdb 0 0x400001 (example_state True)
             = Returned (Some (ErrnoSys EINVAL)) \<sigma>'
          \<and> heap \<sigma>' = heap (example_state True))
   \<and> (\<exists>\<sigma>'. Open example_lmdb 0 ''db'' 0x400000 0 (example_state False) = Returned None \<sigma>'
          \<and> deref \<sigma>' 0 = Some (example_env True))
   \<and> (\<exists>\<sigma>'. Open example_lmdb 0 [] 0x400000 0 (example_state False)
             = Returned (Some (ErrnoSys 2)) \<sigma>'
          \<and> heap \<sigma>' = heap (example_state False))"
proof -
  have n: "NoLock example_lmdb = 0x400000" by (simp add: example_lmdb_def)
  have e: "example_env False\<lparr>noLock := True\<rparr> = example_env True"
    "example_env True\<lparr>noLock := False\<rparr> = example_env False"
    by (simp_all add: example_env_def)
  have m: "lmdb_SetFlags (Env_lmdb (example_env nl)) flags w
             = (if flags AND 1 \<noteq> 0 then Some (ErrnoSys EINVAL) else None, w)"
    "lmdb_UnsetFlags (Env_lmdb (example_env nl)) flags w
             = (if flags AND 1 \<noteq> 0 then Some (ErrnoSys EINVAL) else None, w)"
    "lmdb_Open (Env_lmdb (example_env nl)) path flags mode w
             = (if path = [] then Some (ErrnoSys 2) else None, w)"
    for nl flags w path mode
    by (simp_all add: example_env_def example_engine_def)
  note tF = lifecycle_proxies_update_flag_on_success_only
    [OF example_deref [of False], where L = example_lmdb, unfolded n m]
  note tT = lifecycle_proxies_update_flag_on_success_only
    [OF example_deref [of True], where L = example_lmdb, unfolded n m]
  show ?thesis
    using tF [where flags = "0x400000" and path = "''db''" and mode = 0]
      tF [where flags = "0x400001" and path = "[]" and mode = 0]
      tF [where flags = "0x400000" and path = "[]" and mode = 0]
      tT [where flags = "0x400000" and path = "[]" and mode = 0]
      tT [where flags = "0x400001" and path = "[]" and mode = 0]
    by (simp add: e)
qed

text \<open>
  Claim C6. After a successful \<open>SetFlags\<close> whose flags include the lock-disable bit, the
  next update attempt takes the exclusive path: the attempt locks the mutex for writing
  around the engine call, and every round of a returning \<open>Update\<close> does. After a
  successful \<open>UnsetFlags\<close> whose flags include the bit, attempts take the shared path
  again: every attempt, read-only or not, takes the read lock around the engine call, and
  so does every round of a returning \<open>View\<close> or \<open>Update\<close>.
\<close>

theorem flag_changes_switch_admission_path:
  assumes "deref \<sigma> r = Some env" and "flags AND NoLock L \<noteq> 0"
  shows "(SetFlags L r flags \<sigma> = Returned None \<sigma>1 \<longrightarrow>
            (acquirable Exclusive (txnlock env) \<longrightarrow>
               run r False fn \<sigma>1 =
                 Returned (fst (fn (world \<sigma>1)))
                   (\<sigma>1\<lparr>world := snd (fn (world \<sigma>1)),
                        trace := trace \<sigma>1 @ [EvLock r, EvTxn r, EvUnlock r]\<rparr>))
            \<and> (Update r op \<sigma>1 = Some (Returned e \<sigma>2) \<longrightarrow>
                 (\<exists>hs. hs \<noteq> [] \<and> trace \<sigma>2 = trace \<sigma>1 @ rounds_events Exclusive r hs)))
       \<and> (UnsetFlags L r flags \<sigma> = Returned None \<sigma>1 \<longrightarrow>
            (acquirable Shared (txnlock env) \<longrightarrow>
               run r readonly fn \<sigma>1 =
                 Returned (fst (fn (world \<sigma>1)))
                   (\<sigma>1\<lparr>world := snd (fn (world \<sigma>1)),
                        trace := trace \<sigma>1 @ [EvRLock r, EvTxn r, EvRUnlock r]\<rparr>))
            \<and> (View r op \<sigma>1 = Some (Returned e \<sigma>2) \<longrightarrow>
                 (\<exists>hs. hs \<noteq> [] \<and> trace \<sigma>2 = trace \<sigma>1 @ rounds_events Shared r hs))
            \<and> (Update r op \<sigma>1 = Some (Returned e \<sigma>2) \<longrightarrow>
                 (\<exists>hs. hs \<noteq> [] \<and> trace \<sigma>2 = trace \<sigma>1 @ rounds_events Shared r hs)))"
proof (intro conjI impI)
  assume s: "SetFlags L r flags \<sigma> = Returned None \<sigma>1"
  with assms have d1: "deref \<sigma>1 r = Some (env\<lparr>noLock := True\<rparr>)"
    by (auto simp: SetFlags_def call_def deref_def store_def split: prod.splits if_splits)
  { assume "acquirable Exclusive (txnlock env)"
    then show "run r False fn \<sigma>1 =
                 Returned (fst (fn (world \<sigma>1)))
                   (\<sigma>1\<lparr>world := snd (fn (world \<sigma>1)),
                        trace := trace \<sigma>1 @ [EvLock r, EvTxn r, EvUnlock r]\<rparr>)"
      using run_in_mode [OF d1, of False fn]
      by (simp add: admission_mode_def attempt_events_def) }
  { assume "Update r op \<sigma>1 = Some (Returned e \<sigma>2)"
    then have "runHandler r False (lmdb_Update (Env_lmdb env) op)
                 (HandlerChain_HandleTxnErr (Handlers env)) \<sigma>1 = Some (Returned e \<sigma>2)"
      using d1 by (simp add: Update_def)
    from runHandler_returned_trace [OF this d1]
    show "\<exists>hs. hs \<noteq> [] \<and> trace \<sigma>2 = trace \<sigma>1 @ rounds_events Exclusive r hs"
      by (auto simp: admission_mode_def) }
next
  assume s: "UnsetFlags L r flags \<sigma> = Returned None \<sigma>1"
  with assms have d1: "deref \<sigma>1 r = Some (env\<lparr>noLock := False\<rparr>)"
    by (auto simp: UnsetFlags_def call_def deref_def store_def split: prod.splits if_splits)
  { assume "acquirable Shared (txnlock env)"
    then show "run r readonly fn \<sigma>1 =
                 Returned (fst (fn (world \<sigma>1)))
                   (\<sigma>1\<lparr>world := snd (fn (world \<sigma>1)),
                        trace := trace \<sigma>1 @ [EvRLock r, EvTxn r, EvRUnlock r]\<rparr>)"
      using run_in_mode [OF d1, of readonly fn]
      by (simp add: admission_mode_def attempt_events_def) }
  { assume "View r op \<sigma>1 = Some (Returned e \<sigma>2)"
    then have "runHandler r True (lmdb_View (Env_lmdb env) op)
                 (HandlerChain_HandleTxnErr (Handlers env)) \<sigma>1 = Some (Returned e \<sigma>2)"
      using d1 by (simp add: View_def)
    from runHandler_returned_trace [OF this d1]
    show "\<exists>hs. hs \<noteq> [] \<and> trace \<sigma>2 = trace \<sigma>1 @ rounds_events Shared r hs"
      by (auto simp: admission_mode_def) }
  { assume "Update r op \<sigma>1 = Some (Returned e \<sigma>2)"
    then have "runHandler r False (lmdb_Update (Env_lmdb env) op)
                 (HandlerChain_HandleTxnErr (Handlers env)) \<sigma>1 = Some (Returned e \<sigma>2)"
      using d1 by (simp add: Update_def)
    from runHandler_returned_trace [OF this d1]
    show "\<exists>hs. hs \<noteq> [] \<and> trace \<sigma>2 = trace \<sigma>1 @ rounds_events Shared r hs"
      by (auto simp: admission_mode_def) }
qed

theorem flag_changes_switch_admission_path_witness:
  "SetFlags example_lmdb 0 0x400000 (example_state False) = Returned None (example_state True)
   \<and> run 0 False (lmdb_Update example_engine example_body) (example_state True) =
       Returned (Some MapResized)
         (example_state True\<lparr>world := 1, trace := [EvLock 0, EvTxn 0, EvUnlock 0]\<rparr>)
   \<and> (\<exists>hs. hs \<noteq> [] \<and> trace (example_state_after True False) = rounds_events Exclusive 0 hs)
   \<and> UnsetFlags example_lmdb 0 0x400000 (example_state True) = Returned None (example_state False)
   \<and> run 0 True (lmdb_View example_engine example_body) (example_state False) =
       Returned (Some MapResized)
         (example_state False\<lparr>world := 1, trace := [EvRLock 0, EvTxn 0, EvRUnlock 0]\<rparr>)
   \<and> (\<exists>hs. hs \<noteq> [] \<and> trace (example_state_after False True) = rounds_events Shared 0 hs)
   \<and> (\<exists>hs. hs \<noteq> [] \<and> trace (example_state_after False False) = rounds_events Shared 0 hs)"
proof -
  have n: "0x400000 AND NoLock example_lmdb \<noteq> 0" by (simp add: example_lmdb_def)
  have s: "SetFlags example_lmdb 0 0x400000 (example_state False)
             = Returned None (example_state True)"
    by (simp add: SetFlags_def call_def deref_def store_def example_defs)
  have u: "UnsetFlags example_lmdb 0 0x400000 (example_state True)
             = Returned None (example_state False)"
    by (simp add: UnsetFlags_def call_def deref_def store_def example_defs)
  have a: "acquirable m (txnlock (example_env nl))" for m nl
    by (rule example_acquirable)
  note tF = flag_changes_switch_admission_path [OF example_deref [of False] n,
      where ?\<sigma>1.0 = "example_state True" and op = example_body and e = None]
  note tT = flag_changes_switch_admission_path [OF example_deref [of True] n,
      where ?\<sigma>1.0 = "example_state False" and op = example_body and e = None]
  have "run 0 False (lmdb_Update example_engine example_body) (example_state True) =
       Returned (Some MapResized)
         (example_state True\<lparr>world := 1, trace := [EvLock 0, EvTxn 0, EvUnlock 0]\<rparr>)"
    using tF [where fn = "lmdb_Update example_engine example_body"] s a
    by (simp add: example_defs)
  moreover
  have "\<exists>hs. hs \<noteq> [] \<and> trace (example_state_after True False) = rounds_events Exclusive 0 hs"
    using tF [where ?\<sigma>2.0 = "example_state_after True False"] s example_transactions [of True]
    by (simp add: example_state_def)
  moreover
  have "run 0 True (lmdb_View example_engine example_body) (example_state False) =
       Returned (Some MapResized)
         (example_state False\<lparr>world := 1, trace := [EvRLock 0, EvTxn 0, EvRUnlock 0]\<rparr>)"
    using tT [where fn = "lmdb_View example_engine example_body" and readonly = True] u a
    by (simp add: example_defs)
  moreover
  have "\<exists>hs. hs \<noteq> [] \<and> trace (example_state_after False True) = rounds_events Shared 0 hs"
    using tT [where ?\<sigma>2.0 = "example_state_after False True"] u example_transactions [of False]
    by (simp add: example_state_def)
  moreover
  have "\<exists>hs. hs \<noteq> [] \<and> trace (example_state_after False False) = rounds_events Shared 0 hs"
    using tT [where ?\<sigma>2.0 = "example_state_after False False"] u example_transactions [of False]
    by (simp add: example_state_def)
  ultimately show ?thesis using s u by blast
qed

text \<open>
  Claim C7. \<open>NewEnv\<close> queries the flags of the engine handle, the given one or, for a
  nil argument, the one that \<open>lmdb.NewEnv()\<close> returns. If the query succeeds, the new
  wrapper is in lock-disabled mode exactly when the flags include the lock-disable bit,
  with no call of \<open>SetFlags\<close>. If the query fails with \<open>EINVAL\<close>, the errno of a handle
  that is not yet open, \<open>NewEnv\<close> succeeds all the same, and the wrapper has locking
  enabled: the flags a failed query returns are Go's zero value. Any other error of the
  query is returned by \<open>NewEnv\<close>, and no wrapper is allocated.
\<close>

theorem NewEnv_reads_lock_mode_from_engine_flags:
  assumes "env = Some eng \<and> w0 = world \<sigma>
           \<or> env = None \<and> lmdb_NewEnv L (world \<sigma>) = ((Some eng, None), w0)"
    and "lmdb_Flags eng w0 = ((flags, err), w')"
  shows "(err = None \<longrightarrow>
           NewEnv L env hs \<sigma> =
             Returned (Some (length (heap \<sigma>)), None)
               (\<sigma>\<lparr>world := w',
                   heap := heap \<sigma> @
                     [\<lparr>Env_lmdb = eng, Handlers = hs, bag = Background,
                       noLock = (flags AND NoLock L \<noteq> 0),
                       txnlock = \<lparr>writer = False, readers = 0\<rparr>\<rparr>]\<rparr>))
       \<and> (err = Some (ErrnoSys EINVAL) \<and> flags = 0 \<longrightarrow>
           NewEnv L env hs \<sigma> =
             Returned (Some (length (heap \<sigma>)), None)
               (\<sigma>\<lparr>world := w',
                   heap := heap \<sigma> @
                     [\<lparr>Env_lmdb = eng, Handlers = hs, bag = Background,
                       noLock = False,
                       txnlock = \<lparr>writer = False, readers = 0\<rparr>\<rparr>]\<rparr>))
       \<and> (err \<noteq> None \<and> err \<noteq> Some (ErrnoSys EINVAL) \<longrightarrow>
           NewEnv L env hs \<sigma> = Returned (None, err) (\<sigma>\<lparr>world := w'\<rparr>))"
  using assms
  by (auto simp: NewEnv_def call_def IsErrnoSys_def split: prod.splits option.splits)

theorem NewEnv_reads_lock_mode_from_engine_flags_witness:
  "NewEnv example_lmdb (Some (example_engine\<lparr>lmdb_Flags := (\<lambda>w. ((0x400000, None), w))\<rparr>))
      [example_handler] (example_state False) =
     Returned (Some 1, None)
       (example_state False
          \<lparr>heap := [example_env False,
                    example_env True
                      \<lparr>Env_lmdb := example_engine\<lparr>lmdb_Flags := (\<lambda>w. ((0x400000, None), w))\<rparr>\<rparr>]\<rparr>)
   \<and> NewEnv example_lmdb
        (Some (example_engine\<lparr>lmdb_Flags := (\<lambda>w. ((0, Some (ErrnoSys EINVAL)), w))\<rparr>))
        [example_handler] (example_state False) =
       Returned (Some 1, None)
         (example_state False
            \<lparr>heap := [example_env False,
                      example_env False
                        \<lparr>Env_lmdb :=
                           example_engine\<lparr>lmdb_Flags := (\<lambda>w. ((0, Some (ErrnoSys EINVAL)), w))\<rparr>\<rparr>]\<rparr>)
   \<and> NewEnv example_lmdb
        (Some (example_engine\<lparr>lmdb_Flags := (\<lambda>w. ((0, Some (ErrnoSys 13)), w))\<rparr>))
        [example_handler] (example_state False) =
       Returned (None, Some (ErrnoSys 13)) (example_state False)
   \<and> NewEnv example_lmdb None [example_handler] (example_state False) =
       Returned (Some 1, None)
         (example_state False\<lparr>heap := [example_env False, example_env False]\<rparr>)"
proof -
  note t = NewEnv_reads_lock_mode_from_engine_flags
    [where L = example_lmdb and \<sigma> = "example_state False" and hs = "[example_handler]"
       and ?w0.0 = 0 and w' = 0]
  show ?thesis
    using t [where env = "Some (example_engine\<lparr>lmdb_Flags := (\<lambda>w. ((0x400000, None), w))\<rparr>)"
               and eng = "example_engine\<lparr>lmdb_Flags := (\<lambda>w. ((0x400000, None), w))\<rparr>"
               and flags = "0x400000" and err = None]
      t [where env = "Some (example_engine\<lparr>lmdb_Flags := (\<lambda>w. ((0, Some (ErrnoSys EINVAL)), w))\<rparr>)"
           and eng = "example_engine\<lparr>lmdb_Flags := (\<lambda>w. ((0, Some (ErrnoSys EINVAL)), w))\<rparr>"
           and flags = 0 and err = "Some (ErrnoSys EINVAL)"]
      t [where env = "Some (example_engine\<lparr>lmdb_Flags := (\<lambda>w. ((0, Some (ErrnoSys 13)), w))\<rparr>)"
           and eng = "example_engine\<lparr>lmdb_Flags := (\<lambda>w. ((0, Some (ErrnoSys 13)), w))\<rparr>"
           and flags = 0 and err = "Some (ErrnoSys 13)"]
      t [where env = None and eng = example_engine and flags = 0 and err = None]
    by (simp add: example_state_def example_lmdb_def example_env_def EINVAL_def)
       (simp add: example_engine_def)
qed

section \<open>Runners\<close>

text \<open>
  Claim C8. \<open>WithHandler(h)\<close> returns a runner for the same wrapper whose chain is the
  wrapper's chain with \<open>h\<close> appended, and changes nothing in the state. When one of the
  runner's four transaction operations returns, the wrapper is as it was before, its
  handler chain included, so a later transaction called on the wrapper itself runs with
  the chain the wrapper had all along.
\<close>

theorem WithHandler_leaves_wrapper_chain:
  assumes "deref \<sigma> r = Some env"
  shows "(\<exists>rn. WithHandler r h1 \<sigma> = Returned rn \<sigma>
            \<and> runner_env rn = r \<and> runner_h rn = Handlers env @ [h1]
            \<and> (handlerRunner_RunTxn L rn flags op \<sigma> = Some (Returned e \<sigma>') \<longrightarrow> deref \<sigma>' r = Some env)
            \<and> (handlerRunner_View rn op \<sigma> = Some (Returned e \<sigma>') \<longrightarrow> deref \<sigma>' r = Some env)
            \<and> (handlerRunner_Update rn op \<sigma> = Some (Returned e \<sigma>') \<longrightarrow> deref \<sigma>' r = Some env)
            \<and> (handlerRunner_UpdateLocked rn op \<sigma> = Some (Returned e \<sigma>') \<longrightarrow> deref \<sigma>' r = Some env))"
proof -
  have ops: "deref \<sigma>' r = Some env"
    if "runHandler r ro fn' h \<sigma> = Some (Returned e \<sigma>')" for ro fn' h
    using runHandler_returned_trace [OF that assms] assms deref_heap_eq by metis
  show ?thesis
    using assms by (auto simp: WithHandler_def Append_def runner_defs intro: ops)
qed

theorem WithHandler_leaves_wrapper_chain_witness:
  "WithHandler 0 example_handler (example_state False)
     = Returned \<lparr>runner_env = 0, runner_h = [example_handler, example_handler]\<rparr>
         (example_state False)
   \<and> handlerRunner_Update \<lparr>runner_env = 0, runner_h = [example_handler, example_handler]\<rparr>
        example_body (example_state False)
       = Some (Returned None (example_state_after False False))
   \<and> deref (example_state_after False False) 0 = Some (example_env False)
   \<and> Handlers (example_env False) = [example_handler]"
proof -
  from WithHandler_leaves_wrapper_chain [OF example_deref [of False],
      where ?h1.0 = example_handler and L = example_lmdb and flags = 0 and op = example_body
        and e = None and ?\<sigma>' = "example_state_after False False"]
  obtain rn where rn: "WithHandler 0 example_handler (example_state False)
                         = Returned rn (example_state False)"
    "runner_env rn = 0" "runner_h rn = Handlers (example_env False) @ [example_handler]"
    and u: "handlerRunner_Update rn example_body (example_state False)
              = Some (Returned None (example_state_after False False))
            \<longrightarrow> deref (example_state_after False False) 0 = Some (example_env False)"
    by blast
  from rn(2,3) have "rn = \<lparr>runner_env = 0, runner_h = [example_handler, example_handler]\<rparr>"
    by (simp add: example_env_def)
  with rn(1) u example_runner_transactions [of False] show ?thesis
    by (simp add: example_env_def)
qed

section \<open>The context bag\<close>

text \<open>
  Claim C9. Looking up the environment in a bag tagged with \<open>env\<close> returns \<open>env\<close>:
  \<open>BagEnv(bagWithEnv(b, env)) = env\<close>. Every transaction operation hands the chain, in
  its first handler call, the wrapper's own bag tagged with the wrapper under the private
  key, from which \<open>BagEnv\<close> recovers the wrapper.
\<close>

theorem handlers_recover_wrapper_from_bag:
  "BagEnv (bagWithEnv b p) = p
   \<and> (deref \<sigma> r = Some env \<longrightarrow>
        BagEnv (bagWithEnv (bag env) (Some r)) = Some r
        \<and> (RunTxn L r flags op \<sigma> = Some (Returned e \<sigma>') \<longrightarrow>
             (\<exists>evs. trace \<sigma>' = trace \<sigma> @ evs
                \<and> first_handled evs = Some (bagWithEnv (bag env) (Some r))))
        \<and> (View r op \<sigma> = Some (Returned e \<sigma>') \<longrightarrow>
             (\<exists>evs. trace \<sigma>' = trace \<sigma> @ evs
                \<and> first_handled evs = Some (bagWithEnv (bag env) (Some r))))
        \<and> (Update r op \<sigma> = Some (Returned e \<sigma>') \<longrightarrow>
             (\<exists>evs. trace \<sigma>' = trace \<sigma> @ evs
                \<and> first_handled evs = Some (bagWithEnv (bag env) (Some r))))
        \<and> (UpdateLocked r op \<sigma> = Some (Returned e \<sigma>') \<longrightarrow>
             (\<exists>evs. trace \<sigma>' = trace \<sigma> @ evs
                \<and> first_handled evs = Some (bagWithEnv (bag env) (Some r)))))"
proof -
  have rt: "BagEnv (bagWithEnv b' p') = p'" for b' p'
    by (simp add: BagEnv_def bagWithEnv_def)
  have ops: "\<exists>evs. trace \<sigma>' = trace \<sigma> @ evs
                \<and> first_handled evs = Some (bagWithEnv (bag env) (Some r))"
    if "runHandler r ro fn' h \<sigma> = Some (Returned e \<sigma>')" and "deref \<sigma> r = Some env" for ro fn' h
    using runHandler_returned_trace [OF that] first_handled_rounds by metis
  show ?thesis
    by (auto simp: txn_defs rt intro: ops)
qed

theorem handlers_recover_wrapper_from_bag_witness:
  "BagEnv (bagWithEnv (BagWith Background (OtherKey 1) (Some (OtherValue 5))) None) = None
   \<and> BagEnv example_bag = Some 0
   \<and> (\<exists>evs. trace (example_state_after True False) = evs \<and> first_handled evs = Some example_bag)
   \<and> (\<exists>evs. trace (example_state_after True True) = evs \<and> first_handled evs = Some example_bag)"
proof -
  have b: "bagWithEnv (bag (example_env nl)) (Some 0) = example_bag" for nl
    by (simp add: example_env_def example_bag_def bagWithEnv_def)
  note t = handlers_recover_wrapper_from_bag
    [where \<sigma> = "example_state True" and r = 0 and env = "example_env True"
       and L = example_lmdb and op = example_body and e = None, unfolded b]
  show ?thesis
    using t [where b = "BagWith Background (OtherKey 1) (Some (OtherValue 5))" and p = None
               and flags = 0 and ?\<sigma>' = "example_state_after True False"]
      t [where b = Background and p = "Some 0" and flags = "0x20000"
           and ?\<sigma>' = "example_state_after True True"]
      example_transactions [of True] example_deref [of True]
    by (simp add: example_state_def)
qed

text \<open>
  Claim C10. In every bag in which the private key \<open>envBagKey(0)\<close> is absent (the lookup
  yields nil) or is bound to a value whose type is not \<open>*Env\<close>, \<open>BagEnv\<close> returns the nil
  pointer: the type assertion neither fails nor yields a value of another type.
\<close>

theorem BagEnv_nil_when_absent_or_foreign:
  "(Value b (envBagKey 0) = None \<or> (\<exists>n. Value b (envBagKey 0) = Some (OtherValue n)))
     \<longrightarrow> BagEnv b = None"
  by (auto simp: BagEnv_def)

theorem BagEnv_nil_when_absent_or_foreign_witness:
  "BagEnv Background = None
   \<and> BagEnv (BagWith (BagWith Background (OtherKey 3) (Some (EnvValue (Some 1))))
        (envBagKey 0) (Some (OtherValue 7))) = None"
  using BagEnv_nil_when_absent_or_foreign [of Background]
    BagEnv_nil_when_absent_or_foreign
      [of "BagWith (BagWith Background (OtherKey 3) (Some (EnvValue (Some 1))))
             (envBagKey 0) (Some (OtherValue 7))"]
  by simp

end
